theory Spec2Isabelle
  imports Complex_Main "HOL-Library.AList" "HOL-Library.Log_Nat"
begin

section \<open>Python values: exceptions, floats, rounding\<close>

text \<open>
  An exception is a value: its class and its message (\<open>str(e)\<close>). \<open>OtherError\<close> stands
  for whatever a library call raises (a date that does not parse, a fitted pipeline that
  rejects its input, a label an encoder has not seen).
\<close>

datatype py_error =
  ValueError string | ZeroDivisionError string | KeyError string | OtherError string

fun str :: "py_error \<Rightarrow> string" where
  "str (ValueError m) = m"
| "str (ZeroDivisionError m) = m"
| "str (KeyError k) = [CHR 0x27] @ k @ [CHR 0x27]"
| "str (OtherError m) = m"

text \<open>
  Two kinds of float occur. The feature columns (temperature, rainfall, the factors of the
  tables) are only handed on to the fitted model, a library function: they are taken as the
  real numbers they stand for, and where pandas produces NaN (a key a mapping does not
  have, the day of a missing date) or a non-finite quotient (a division by zero, which
  numpy does not raise on), the column holds \<open>None\<close>. The prices that the code multiplies,
  adds, divides, rounds and returns are IEEE 754 binary64 numbers, modelled in the next
  section with their rounding, their infinities and NaN.
\<close>

definition np_div :: "real \<Rightarrow> real \<Rightarrow> real option" where
  "np_div a b = (if b = 0 then None else Some (a / b))"

text \<open>The nearest integer, a tie going to the even one.\<close>

definition round_half_even :: "real \<Rightarrow> int" where
  "round_half_even y =
     (let f = \<lfloor>y\<rfloor>; d = y - of_int f
      in if d < 1/2 then f else if 1/2 < d then f + 1 else if even f then f else f + 1)"

section \<open>Binary64 floating point\<close>

text \<open>
  A double is a finite number, taken as the real number it denotes (the sign of a zero is
  not kept), an infinity or NaN.
\<close>

datatype double = Finite real | PInf | MInf | NaN

text \<open>
  \<open>exponent r\<close> is the integer \<open>e\<close> with \<open>2 ^ e \<le> \<bar>r\<bar> < 2 ^ (e + 1)\<close>. The doubles
  around \<open>r\<close> are the multiples of \<open>quantum r\<close>: 53 significant bits, and the fixed spacing
  of the subnormal numbers below \<open>2 ^ -1022\<close>. \<open>round_to_double\<close> is round-to-nearest,
  ties to even; \<open>fl\<close> is the result of an operation whose exact value is \<open>r\<close>, which is an
  infinity when the rounded value is beyond the largest finite double.
\<close>

definition pow2 :: "int \<Rightarrow> real" where
  "pow2 e = (if 0 \<le> e then 2 ^ nat e else 1 / 2 ^ nat (- e))"

definition exponent :: "real \<Rightarrow> int" where
  "exponent r =
     (if 1 \<le> \<bar>r\<bar> then bitlen \<lfloor>\<bar>r\<bar>\<rfloor> - 1 else - bitlen (\<lceil>1 / \<bar>r\<bar>\<rceil> - 1))"

definition quantum :: "real \<Rightarrow> real" where
  "quantum r = pow2 (max (exponent r) (- 1022) - 52)"

definition round_to_double :: "real \<Rightarrow> real" where
  "round_to_double r =
     (if r = 0 then 0 else of_int (round_half_even (r / quantum r)) * quantum r)"

definition max_double :: real where
  "max_double = (2 ^ 53 - 1) * 2 ^ 971"

definition fl :: "real \<Rightarrow> double" where
  "fl r =
     (let v = round_to_double r
      in if max_double < v then PInf else if v < - max_double then MInf else Finite v)"

text \<open>
  Multiplication and addition of doubles, and the division of a double by a finite double
  \<open>c\<close> (the code divides by 100 and by the length of a list). No operation raises: numpy
  gives an infinity or NaN.
\<close>

fun fmul :: "double \<Rightarrow> double \<Rightarrow> double" where
  "fmul (Finite x) (Finite y) = fl (x * y)"
| "fmul NaN _ = NaN"
| "fmul _ NaN = NaN"
| "fmul (Finite x) PInf = (if x = 0 then NaN else if 0 < x then PInf else MInf)"
| "fmul (Finite x) MInf = (if x = 0 then NaN else if 0 < x then MInf else PInf)"
| "fmul PInf (Finite y) = (if y = 0 then NaN else if 0 < y then PInf else MInf)"
| "fmul MInf (Finite y) = (if y = 0 then NaN else if 0 < y then MInf else PInf)"
| "fmul PInf PInf = PInf"
| "fmul PInf MInf = MInf"
| "fmul MInf PInf = MInf"
| "fmul MInf MInf = PInf"

fun fadd :: "double \<Rightarrow> double \<Rightarrow> double" where
  "fadd (Finite x) (Finite y) = fl (x + y)"
| "fadd NaN _ = NaN"
| "fadd _ NaN = NaN"
| "fadd PInf MInf = NaN"
| "fadd MInf PInf = NaN"
| "fadd PInf _ = PInf"
| "fadd _ PInf = PInf"
| "fadd MInf _ = MInf"
| "fadd _ MInf = MInf"

fun fdiv :: "double \<Rightarrow> real \<Rightarrow> double" where
  "fdiv (Finite x) c =
     (if c = 0 then (if x = 0 then NaN else if 0 < x then PInf else MInf) else fl (x / c))"
| "fdiv PInf c = (if c < 0 then MInf else PInf)"
| "fdiv MInf c = (if c < 0 then PInf else MInf)"
| "fdiv NaN c = NaN"

text \<open>\<open>a < b\<close> on doubles: false as soon as one of them is NaN.\<close>

fun dlt :: "double \<Rightarrow> double \<Rightarrow> bool" where
  "dlt (Finite x) (Finite y) = (x < y)"
| "dlt NaN _ = False"
| "dlt _ NaN = False"
| "dlt _ MInf = False"
| "dlt MInf _ = True"
| "dlt PInf _ = False"
| "dlt _ PInf = True"

text \<open>
  \<open>round(x, 2)\<close>. On a \<open>numpy.float64\<close>, which is what a fitted model's \<open>predict(df)[0]\<close>
  and every product and quotient of it is, \<open>round\<close> is numpy's: the double \<open>x * 100\<close>,
  rounded to an integer by \<open>rint\<close> (ties to even), divided by 100. On a Python \<open>float\<close>
  (\<open>round(float(x), 2)\<close> in app/main.py) it is Python's: the double nearest to the decimal
  with two places nearest to the exact value of \<open>x\<close>. Both leave an infinity and NaN as
  they are.
\<close>

fun rint :: "double \<Rightarrow> double" where
  "rint (Finite x) = Finite (of_int (round_half_even x))"
| "rint d = d"

definition np_round2 :: "double \<Rightarrow> double" where
  "np_round2 d = fdiv (rint (fmul d (Finite 100))) 100"

fun py_round2 :: "double \<Rightarrow> double" where
  "py_round2 (Finite x) = fl (of_int (round_half_even (x * 100)) / 100)"
| "py_round2 d = d"

text \<open>
  \<open>sum(...)\<close> of doubles: from the integer 0, one addition after the other, each of them
  rounded.
\<close>

definition py_sum :: "double list \<Rightarrow> double" where
  "py_sum ps = fold (\<lambda>p s. fadd s p) ps (Finite 0)"

section \<open>Feature engineering (train_perfect_ai_model.py)\<close>

text \<open>
  The dictionary handed to \<open>PerfectCropPricePredictor.predict\<close>. Eight keys are always
  there. \<open>area\<close> and \<open>date\<close> may be missing (the script's own sample input), hold
  \<open>None\<close> (what pydantic's \<open>.dict()\<close> gives for an optional field left out) or hold a value;
  \<open>price\<close> is missing (\<open>None\<close>) or a number.
\<close>

datatype 'a entry = Absent | Null | Val 'a

record PredictionInput =
  crop :: string
  state :: string
  soil_type :: string
  month :: int
  temperature :: real
  rainfall :: real
  humidity :: real
  prev_year_price :: real

record input_dict = PredictionInput +
  area :: "real entry"
  date :: "string entry"
  price :: "real option"

text \<open>What \<open>pd.to_datetime\<close> makes of a date string, as far as the code reads it.\<close>

record timestamp =
  dayofyear :: int
  dt_quarter :: int
  weekday :: int

text \<open>The one-row frame after feature engineering: the input's columns and fifteen more.\<close>

record features = input_dict +
  day_of_year :: "int option"
  quarter :: "int option"
  is_weekend :: bool
  season :: "string option"
  temp_rainfall_ratio :: "real option"
  humidity_temp_interaction :: real
  weather_stress :: int
  price_volatility :: int
  price_trend :: int
  prev_year_price_ratio :: "real option"
  crop_category :: string
  state_economic_factor :: real
  soil_productivity :: real
  crop_demand_score :: int
  state_crop_specialization :: int

text \<open>
  \<open>Series.map(d)\<close> with a dictionary \<open>d\<close>: the value of the key, NaN for a key \<open>d\<close> does not
  have. \<open>fillna(v)\<close> puts \<open>v\<close> where the cell is NaN. No key occurs twice in the tables below.
\<close>

definition series_map :: "('k \<times> 'v) list \<Rightarrow> 'k \<Rightarrow> 'v option" where
  "series_map d k = map_of d k"

definition fillna :: "'v \<Rightarrow> 'v option \<Rightarrow> 'v" where
  "fillna v cell = (case cell of None \<Rightarrow> v | Some x \<Rightarrow> x)"

definition season_table :: "(int \<times> string) list" where
  "season_table =
     [(12, ''Winter''), (1, ''Winter''), (2, ''Winter''),
      (3, ''Spring''), (4, ''Spring''), (5, ''Spring''),
      (6, ''Summer''), (7, ''Summer''), (8, ''Summer''),
      (9, ''Autumn''), (10, ''Autumn''), (11, ''Autumn'')]"

definition crop_category_table :: "(string \<times> string) list" where
  "crop_category_table =
     [(''Rice'', ''Cereal''), (''Wheat'', ''Cereal''), (''Maize'', ''Cereal''), (''Jowar'', ''Cereal''),
      (''Bajra'', ''Cereal''), (''Ragi'', ''Cereal''),
      (''Cotton'', ''Fiber''), (''Sugarcane'', ''Sugar''),
      (''Soybean'', ''Oilseed''), (''Groundnut'', ''Oilseed''),
      (''Potato'', ''Vegetable''), (''Onion'', ''Vegetable''),
      (''Turmeric'', ''Spice''), (''Arhar'', ''Pulse'')]"

definition state_economic_factors :: "(string \<times> real) list" where
  "state_economic_factors =
     [(''Punjab'', 1.2), (''Maharashtra'', 1.1), (''Karnataka'', 1.0), (''Uttar Pradesh'', 0.9),
      (''Madhya Pradesh'', 0.95), (''Andhra Pradesh'', 1.05), (''West Bengal'', 0.9),
      (''Gujarat'', 1.1), (''Rajasthan'', 0.85), (''Haryana'', 1.15)]"

definition soil_productivity_table :: "(string \<times> real) list" where
  "soil_productivity_table =
     [(''Alluvial'', 1.2), (''Black'', 1.1), (''Red'', 1.0), (''Laterite'', 0.9),
      (''Arid'', 0.8), (''Mountain'', 0.7)]"

text \<open>
  \<open>_apply_feature_engineering\<close>. The only step that can raise is the parsing of a date
  string, a library call taken as the parameter \<open>to_datetime\<close>. A \<open>date\<close> column holding
  \<open>None\<close> parses to NaT: its day and quarter are NaN, and \<open>NaN >= 5\<close> is false.
\<close>

definition apply_feature_engineering ::
  "(string \<Rightarrow> py_error + timestamp) \<Rightarrow> input_dict \<Rightarrow> py_error + features" where
  "apply_feature_engineering to_datetime df =
     (case (case date df of
              Val s \<Rightarrow>
                (case to_datetime s of
                   Inl e \<Rightarrow> Inl e
                 | Inr t \<Rightarrow> Inr (Some (dayofyear t), Some (dt_quarter t), weekday t \<ge> 5))
            | Null \<Rightarrow> Inr (None, None, False)
            | Absent \<Rightarrow> Inr (Some (month df * 30), Some (((month df - 1) div 3) + 1), False))
      of
        Inl e \<Rightarrow> Inl e
      | Inr (doy, q, weekend) \<Rightarrow>
          Inr (input_dict.extend df (features.fields
            doy q weekend
            (series_map season_table (month df))
            (np_div (temperature df) (rainfall df + 1))
            (humidity df * temperature df)
            (if temperature df > 35 \<or> rainfall df < 10 then 1 else 0)
            100
            0
            (case price df of Some p \<Rightarrow> np_div p (prev_year_price df + 1) | None \<Rightarrow> Some 1)
            (fillna ''Other'' (series_map crop_category_table (crop df)))
            (fillna 1.0 (series_map state_economic_factors (state df)))
            (fillna 1.0 (series_map soil_productivity_table (soil_type df)))
            2000
            100)))"

text \<open>\<open>len(df.columns)\<close> of the input frame and of the engineered one.\<close>

definition input_columns :: "'a input_dict_scheme \<Rightarrow> nat" where
  "input_columns df =
     8 + (if area df = Absent then 0 else 1) + (if date df = Absent then 0 else 1)
       + (if price df = None then 0 else 1)"

definition len_columns :: "features \<Rightarrow> nat" where
  "len_columns df = input_columns df + 15"

section \<open>The prediction function (PerfectCropPricePredictor.predict)\<close>

record model_metadata =
  model_type :: string
  features_used :: nat
  prediction_timestamp :: string

datatype py_value = Str string | Bool bool | StrList "string list"

text \<open>
  The result dictionary. \<open>market_insights\<close> and \<open>recommendations\<close> are keys the API layer
  adds; \<open>None\<close> is the key not being there.
\<close>

record prediction_result =
  predicted_price :: double
  confidence_interval :: "double list"
  currency :: string
  model_metadata :: model_metadata
  market_insights :: "(string \<times> py_value) list option"
  recommendations :: "string list option"

text \<open>
  \<open>best_model.predict(df)[0]\<close> is the fitted pipeline of the machine-learning library:
  a function from the engineered row to a double, or an exception. The literals \<open>0.9\<close>
  and \<open>1.1\<close> are the doubles nearest to them. \<open>now\<close> is the reading
  of \<open>datetime.now().isoformat()\<close>. The input is a dictionary (the \<open>isinstance\<close> branch
  that copies a frame is not modelled).
\<close>

type_synonym fitted_model = "features \<Rightarrow> py_error + double"

definition predict ::
  "(string \<Rightarrow> py_error + timestamp) \<Rightarrow> string \<Rightarrow> fitted_model option \<Rightarrow> input_dict
     \<Rightarrow> py_error + prediction_result" where
  "predict to_datetime now best_model input_data =
     (case best_model of
        None \<Rightarrow> Inl (ValueError ''Model not trained yet. Call train() first.'')
      | Some m \<Rightarrow>
          (case apply_feature_engineering to_datetime input_data of
             Inl e \<Rightarrow> Inl e
           | Inr df_input \<Rightarrow>
               (case m df_input of
                  Inl e \<Rightarrow> Inl e
                | Inr prediction \<Rightarrow>
                    (let interval = [fmul prediction (fl 0.9), fmul prediction (fl 1.1)]
                     in Inr \<lparr>predicted_price = np_round2 prediction,
                             confidence_interval = map np_round2 interval,
                             currency = ''INR'',
                             model_metadata =
                               \<lparr>model_type = ''Ensemble'',
                                features_used = len_columns df_input,
                                prediction_timestamp = now\<rparr>,
                             market_insights = None,
                             recommendations = None\<rparr>))))"


section \<open>The API layer (app/main_perfect.py)\<close>

text \<open>
  A handler either raises \<open>HTTPException(status_code, detail)\<close>, which the web framework
  turns into a response with that status while the process keeps serving, or returns its
  value. The request body has passed the framework's validation and the
  \<open>get_current_user\<close> dependency has produced the user before the handler's body runs.
\<close>

datatype 'a response = HTTPException int string | Response 'a

record UserInDB =
  username :: string
  id' :: int

text \<open>
  The \<open>predictions\<close> table through the one shared sqlite3 connection: \<open>committed\<close> is
  what the database file holds, \<open>pending\<close> the rows inserted since the last commit. The
  JSON texts of the row are kept as the values they encode.
\<close>

record prediction_row =
  user_id :: int
  input_data :: input_dict
  prediction_result :: prediction_result
  model_used :: string

record db =
  committed :: "prediction_row list"
  pending :: "prediction_row list"

definition execute_insert :: "prediction_row \<Rightarrow> db \<Rightarrow> db" where
  "execute_insert row d = d\<lparr>pending := pending d @ [row]\<rparr>"

definition commit :: "db \<Rightarrow> db" where
  "commit d = \<lparr>committed = committed d @ pending d, pending = []\<rparr>"

text \<open>\<open>str.lower()\<close> on ASCII text.\<close>

definition lower_char :: "char \<Rightarrow> char" where
  "lower_char c =
     (let n = (of_char c :: nat) in if 65 \<le> n \<and> n \<le> 90 then char_of (n + 32) else c)"

definition lower :: "string \<Rightarrow> string" where
  "lower s = map lower_char s"

definition generate_market_insights :: "string \<Rightarrow> string \<Rightarrow> (string \<times> py_value) list" where
  "generate_market_insights crop_name state_name =
     (let insights =
        [(''price_trend'', Str ''Stable to increasing''),
         (''demand_forecast'', Str ''High demand expected''),
         (''weather_impact'', Str ''Favorable conditions''),
         (''market_volatility'', Str ''Low to moderate''),
         (''recommended_actions'', StrList
            [''Monitor weather forecasts closely'',
             ''Consider staggered selling strategy'',
             ''Check local market prices regularly''])]
      in if lower crop_name \<in> set [''rice'', ''wheat''] then
           AList.update ''demand_forecast'' (Str ''Consistent high demand'')
             (AList.update ''price_trend'' (Str ''Stable with seasonal variations'') insights)
         else if lower crop_name \<in> set [''cotton'', ''sugarcane''] then
           AList.update ''market_volatility'' (Str ''High'')
             (AList.update ''price_trend'' (Str ''Volatile with export dependencies'') insights)
         else if lower crop_name \<in> set [''potato'', ''onion''] then
           AList.update ''recommended_actions'' (StrList
              [''Monitor weather forecasts closely'',
               ''Consider staggered selling strategy'',
               ''Check local market prices regularly'',
               ''Consider cold storage for better prices''])
             (AList.update ''market_volatility'' (Str ''Very high'')
               (AList.update ''price_trend'' (Str ''Highly seasonal'') insights))
         else insights)"

definition generate_recommendations :: "prediction_result \<Rightarrow> input_dict \<Rightarrow> string list" where
  "generate_recommendations prediction inp =
     (if dlt (Finite 3000) (predicted_price prediction)
        then [''High price predicted - consider selling soon'']
      else if dlt (predicted_price prediction) (Finite 1500)
        then [''Low price predicted - consider holding or finding better markets'']
      else [])
     @ (if temperature inp > 35 then [''High temperature detected - monitor crop health closely'']
        else [])
     @ (if rainfall inp < 50 then [''Low rainfall - consider irrigation if possible''] else [])
     @ (if month inp \<in> set [10, 11, 12, 1, 2] then [''Winter season - prices typically stable'']
        else if month inp \<in> set [6, 7, 8, 9]
          then [''Monsoon season - monitor for weather-related price fluctuations'']
        else [])"

text \<open>
  \<open>PREDICT_FN\<close> is the module-level prediction function: \<open>None\<close> when neither loading
  nor training the model worked at start-up, the predictor's bound \<open>predict\<close> otherwise.
  A handler's \<open>inp\<close> is the request body as the dictionary \<open>input_data.dict()\<close>.
  \<open>add_insights\<close> is the two assignments to \<open>result\<close> that both handlers make, and
  \<open>save_prediction\<close> their \<open>INSERT\<close> followed by \<open>db.commit()\<close>.
\<close>

type_synonym predict_fn = "input_dict \<Rightarrow> py_error + prediction_result"

definition add_insights :: "prediction_result \<Rightarrow> input_dict \<Rightarrow> prediction_result" where
  "add_insights result inp =
     (let result = result\<lparr>market_insights := Some (generate_market_insights (crop inp) (state inp))\<rparr>
      in result\<lparr>recommendations := Some (generate_recommendations result inp)\<rparr>)"

definition save_prediction :: "UserInDB \<Rightarrow> input_dict \<Rightarrow> prediction_result \<Rightarrow> db \<Rightarrow> db" where
  "save_prediction current_user input_dict result d =
     commit (execute_insert
       \<lparr>user_id = id' current_user, input_data = input_dict, prediction_result = result,
        model_used = ''perfect_ai''\<rparr> d)"

definition predict_price ::
  "predict_fn option \<Rightarrow> input_dict \<Rightarrow> UserInDB \<Rightarrow> db \<Rightarrow> prediction_result response \<times> db" where
  "predict_price PREDICT_FN inp current_user d =
     (case PREDICT_FN of
        None \<Rightarrow> (HTTPException 503 ''Prediction service not available'', d)
      | Some fn \<Rightarrow>
          (case fn inp of
             Inl e \<Rightarrow> (HTTPException 400 (str e), d)
           | Inr result \<Rightarrow>
               (let result = add_insights result inp
                in (Response result, save_prediction current_user inp result d))))"

record BatchPredictionRequest =
  predictions :: "input_dict list"
  include_insights :: bool

record summary =
  total_predictions :: nat
  average_price :: double
  price_range :: "double list"
  summary_currency :: string

record BatchPredictionResponse =
  results :: "prediction_result list"
  summary :: summary

text \<open>
  \<open>min\<close> and \<open>max\<close> of a sequence: the first element is kept until a later one is
  smaller (greater) by \<open><\<close>.
\<close>

fun py_min :: "double list \<Rightarrow> py_error + double" where
  "py_min [] = Inl (ValueError ''min() arg is an empty sequence'')"
| "py_min (x # xs) = Inr (fold (\<lambda>y m. if dlt y m then y else m) xs x)"

fun py_max :: "double list \<Rightarrow> py_error + double" where
  "py_max [] = Inl (ValueError ''max() arg is an empty sequence'')"
| "py_max (x # xs) = Inr (fold (\<lambda>y m. if dlt m y then y else m) xs x)"

text \<open>
  The \<open>for\<close> loop of \<open>predict_batch\<close>: \<open>acc\<close> is \<open>results\<close> so far. An exception leaves the
  loop at once, with the database as the earlier rounds left it.
\<close>

fun batch_loop ::
  "predict_fn \<Rightarrow> bool \<Rightarrow> UserInDB \<Rightarrow> input_dict list \<Rightarrow> prediction_result list \<Rightarrow> db
     \<Rightarrow> (py_error + prediction_result list) \<times> db" where
  "batch_loop fn insights current_user [] acc d = (Inr acc, d)"
| "batch_loop fn insights current_user (inp # rest) acc d =
     (case fn inp of
        Inl e \<Rightarrow> (Inl e, d)
      | Inr result \<Rightarrow>
          (let result = (if insights then add_insights result inp else result)
           in batch_loop fn insights current_user rest (acc @ [result])
                (save_prediction current_user inp result d)))"

text \<open>
  The summary block of \<open>predict_batch\<close>; \<open>n\<close> is \<open>len(request.predictions)\<close>. With no
  results the sum is the integer 0 and the length is 0: Python's division of integers
  raises. Otherwise the sum is a double and so is the quotient by the length (a length is
  below \<open>2 ^ 53\<close> and converts exactly).
\<close>

definition make_summary :: "nat \<Rightarrow> prediction_result list \<Rightarrow> py_error + summary" where
  "make_summary n rs =
     (if rs = [] then Inl (ZeroDivisionError ''division by zero'')
      else
        (let avg_price = fdiv (py_sum (map predicted_price rs)) (real (length rs))
         in case py_min (map predicted_price rs) of
              Inl e \<Rightarrow> Inl e
            | Inr lo \<Rightarrow>
                (case py_max (map predicted_price rs) of
                   Inl e \<Rightarrow> Inl e
                 | Inr hi \<Rightarrow>
                     Inr \<lparr>total_predictions = n,
                          average_price = np_round2 avg_price,
                          price_range = map np_round2 [lo, hi],
                          summary_currency = ''INR''\<rparr>)))"

definition predict_batch ::
  "predict_fn option \<Rightarrow> BatchPredictionRequest \<Rightarrow> UserInDB \<Rightarrow> db
     \<Rightarrow> BatchPredictionResponse response \<times> db" where
  "predict_batch PREDICT_FN request current_user d =
     (case PREDICT_FN of
        None \<Rightarrow> (HTTPException 503 ''Prediction service not available'', d)
      | Some fn \<Rightarrow>
          (case batch_loop fn (include_insights request) current_user (predictions request) [] d of
             (Inl e, d') \<Rightarrow> (HTTPException 400 (str e), d')
           | (Inr rs, d') \<Rightarrow>
               (case make_summary (length (predictions request)) rs of
                  Inl e \<Rightarrow> (HTTPException 400 (str e), d')
                | Inr s \<Rightarrow> (Response \<lparr>results = rs, summary = s\<rparr>, d'))))"

definition is_not_None :: "'a option \<Rightarrow> bool" where
  "is_not_None x = (case x of None \<Rightarrow> False | Some _ \<Rightarrow> True)"

definition health_check :: "predict_fn option \<Rightarrow> string \<Rightarrow> (string \<times> py_value) list" where
  "health_check PREDICT_FN utcnow =
     [(''status'', Str ''healthy''),
      (''model_loaded'', Bool (is_not_None PREDICT_FN)),
      (''database_connected'', Bool True),
      (''timestamp'', Str utcnow),
      (''version'', Str ''2.0.0'')]"


section \<open>The simple variant (app/main_simple.py)\<close>

text \<open>
  Its \<open>PredictionInput\<close> has the eight required fields only. The frame given to the model
  is the input and the three derived columns \<open>temp_rainfall_ratio\<close>,
  \<open>humidity_temp_interaction\<close> and \<open>season\<close>, eleven columns in all.
\<close>

record simple_frame =
  simple_input :: PredictionInput
  simple_temp_rainfall_ratio :: "real option"
  simple_humidity_temp_interaction :: real
  simple_season :: "string option"

definition simple_features :: "PredictionInput \<Rightarrow> simple_frame" where
  "simple_features inp =
     \<lparr>simple_input = inp,
      simple_temp_rainfall_ratio = np_div (temperature inp) (rainfall inp + 1),
      simple_humidity_temp_interaction = humidity inp * temperature inp,
      simple_season = series_map season_table (month inp)\<rparr>"

definition simple_predict_price ::
  "(simple_frame \<Rightarrow> py_error + double) option \<Rightarrow> string \<Rightarrow> PredictionInput
     \<Rightarrow> prediction_result response" where
  "simple_predict_price MODEL now inp =
     (case MODEL of
        None \<Rightarrow> HTTPException 503 ''Model not available''
      | Some m \<Rightarrow>
          (let df_input = simple_features inp
           in case m df_input of
                Inl e \<Rightarrow> HTTPException 400 (str e)
              | Inr prediction \<Rightarrow>
                  (let interval = [fmul prediction (fl 0.9), fmul prediction (fl 1.1)]
                   in Response \<lparr>predicted_price = np_round2 prediction,
                                 confidence_interval = map np_round2 interval,
                                 currency = ''INR'',
                                 model_metadata =
                                   \<lparr>model_type = ''RandomForest'',
                                    features_used = 11,
                                    prediction_timestamp = now\<rparr>,
                                 market_insights = None,
                                 recommendations = None\<rparr>)))"

definition simple_health_check ::
  "(simple_frame \<Rightarrow> py_error + double) option \<Rightarrow> string \<Rightarrow> (string \<times> py_value) list" where
  "simple_health_check MODEL utcnow =
     [(''status'', Str ''healthy''),
      (''model_loaded'', Bool (is_not_None MODEL)),
      (''timestamp'', Str utcnow),
      (''version'', Str ''1.0.0'')]"

section \<open>The basic variant (app/main.py)\<close>

text \<open>
  \<open>CropPredictionInput\<close> holds crop, state, month, year, area, rainfall, temperature and
  humidity, in this order. A categorical cell of the frame is the raw label, or its code
  once the column's \<open>LabelEncoder\<close> has transformed it (which raises on a label it has
  not seen). The response is predicted price, confidence interval and currency;
  \<open>float(x)\<close> of a \<open>numpy.float64\<close> is the same double.
\<close>

datatype CropPredictionInput = CropPredictionInput string string int int real real real real

datatype label = Raw string | Encoded int

record frame =
  Crop :: label
  State :: label
  Month :: int
  Year :: int
  Area :: real
  Rainfall :: real
  Temperature :: real
  Humidity :: real

type_synonym encoders = "string \<rightharpoonup> (string \<Rightarrow> py_error + int)"

definition encode :: "encoders \<Rightarrow> string \<Rightarrow> string \<Rightarrow> py_error + label" where
  "encode enc col v =
     (case enc col of
        None \<Rightarrow> Inr (Raw v)
      | Some transform \<Rightarrow>
          (case transform v of Inl e \<Rightarrow> Inl e | Inr c \<Rightarrow> Inr (Encoded c)))"

fun main_predict_price ::
  "(frame \<Rightarrow> py_error + double) option \<Rightarrow> encoders option \<Rightarrow> CropPredictionInput
     \<Rightarrow> (double \<times> double list \<times> string) response" where
  "main_predict_price (Some m) (Some enc) (CropPredictionInput c s mo y a r t h) =
     (case encode enc ''Crop'' c of
        Inl e \<Rightarrow> HTTPException 400 (str e)
      | Inr c' \<Rightarrow>
          (case encode enc ''State'' s of
             Inl e \<Rightarrow> HTTPException 400 (str e)
           | Inr s' \<Rightarrow>
               (case m \<lparr>Crop = c', State = s', Month = mo, Year = y, Area = a, Rainfall = r,
                          Temperature = t, Humidity = h\<rparr> of
                  Inl e \<Rightarrow> HTTPException 400 (str e)
                | Inr prediction \<Rightarrow>
                    (let confidence = [fmul prediction (fl 0.9), fmul prediction (fl 1.1)]
                     in Response (py_round2 prediction, map py_round2 confidence, ''INR'')))))"
| "main_predict_price _ _ _ = HTTPException 503 ''Model not loaded''"


section \<open>Training and model selection (train_perfect_ai_model.py)\<close>

text \<open>
  What the training run asks of pandas and the machine-learning library is taken as
  parameters: reading and preparing the table, \<open>train_test_split\<close> with the arguments the
  code passes, and, for a candidate's name, fitting its pipeline on the training part and
  scoring it on the test part. All three may raise. \<open>'t\<close> is the table, \<open>'d\<close> a part of the
  split (features and target). \<open>stratify\<close> is the column whose values are handed to the
  library as strata (\<open>stratify=df['crop']\<close>), or \<open>None\<close> when the argument is not passed.
\<close>

record metrics =
  mae :: real
  r2 :: real
  rmse :: real

record split_args =
  test_size :: real
  random_state :: nat
  stratify :: "string option"

record ('t, 'd) library =
  load_and_prepare_data :: "string \<Rightarrow> py_error + 't"
  train_test_split :: "'t \<Rightarrow> split_args \<Rightarrow> py_error + 'd \<times> 'd"
  fit_and_score :: "string \<Rightarrow> 'd \<Rightarrow> 'd \<Rightarrow> py_error + metrics"

text \<open>
  A fitted object, by what it is made of: the pipeline of a named candidate, or a voting
  regressor over named estimators; each with the data \<open>fit\<close> was called on.
\<close>

datatype 'd artifact =
  Pipeline string 'd
| VotingRegressor "(string \<times> 'd artifact) list" 'd

record 'd predictor =
  models :: "(string \<times> 'd artifact) list"
  best_model :: "'d artifact option"
  model_performance :: "(string \<times> metrics) list"

definition init :: "'d predictor" where
  "init = \<lparr>models = [], best_model = None, model_performance = []\<rparr>"

text \<open>The keys of the \<open>models\<close> dictionary of \<open>train_ensemble_models\<close>, in its order.\<close>

definition candidates :: "string list" where
  "candidates =
     [''RandomForest'', ''GradientBoosting'', ''ExtraTrees'', ''Ridge'', ''Lasso'',
      ''ElasticNet'', ''SVR'']"

text \<open>
  Dictionaries keep insertion order: \<open>d[k] = v\<close> is \<open>AList.update k v d\<close>, which replaces
  the value of a key in place and appends a new key. \<open>d[k]\<close> raises \<open>KeyError\<close> on a
  missing key.
\<close>

definition getitem :: "(string \<times> 'v) list \<Rightarrow> string \<Rightarrow> py_error + 'v" where
  "getitem d k = (case map_of d k of None \<Rightarrow> Inl (KeyError k) | Some v \<Rightarrow> Inr v)"

text \<open>\<open>max(xs, key=...)\<close>: the first element whose key is the greatest.\<close>

fun py_max_key :: "('a \<Rightarrow> real) \<Rightarrow> 'a list \<Rightarrow> py_error + 'a" where
  "py_max_key key [] = Inl (ValueError ''max() arg is an empty sequence'')"
| "py_max_key key (x # xs) = Inr (fold (\<lambda>y best. if key best < key y then y else best) xs x)"

text \<open>
  \<open>sorted(xs, key=..., reverse=True)\<close>: descending by key, and stable (elements with equal
  keys keep their order), which is the insertion sort of the library on the negated key.
\<close>

definition sorted_reverse :: "('a \<Rightarrow> real) \<Rightarrow> 'a list \<Rightarrow> 'a list" where
  "sorted_reverse key xs = sort_key (\<lambda>x. - key x) xs"

text \<open>The \<open>for name, model in models.items()\<close> loop of \<open>train_ensemble_models\<close>.\<close>

fun train_loop ::
  "('t, 'd) library \<Rightarrow> 'd \<Rightarrow> 'd \<Rightarrow> string list \<Rightarrow> 'd predictor \<Rightarrow> py_error + 'd predictor" where
  "train_loop lib X_train X_test [] self = Inr self"
| "train_loop lib X_train X_test (name # rest) self =
     (case fit_and_score lib name X_train X_test of
        Inl e \<Rightarrow> Inl e
      | Inr m \<Rightarrow>
          train_loop lib X_train X_test rest
            (self\<lparr>model_performance := AList.update name m (model_performance self),
                  models := AList.update name (Pipeline name X_train) (models self)\<rparr>))"

text \<open>
  \<open>max\<close> runs over the keys of \<open>model_performance\<close> with the key's \<open>r2\<close> entry as its
  measure; here it runs over the items, which are in the same order.
\<close>

definition train_ensemble_models ::
  "('t, 'd) library \<Rightarrow> 'd \<Rightarrow> 'd \<Rightarrow> 'd predictor \<Rightarrow> py_error + 'd predictor \<times> string" where
  "train_ensemble_models lib X_train X_test self =
     (case train_loop lib X_train X_test candidates self of
        Inl e \<Rightarrow> Inl e
      | Inr self \<Rightarrow>
          (case py_max_key (\<lambda>x. r2 (snd x)) (model_performance self) of
             Inl e \<Rightarrow> Inl e
           | Inr best \<Rightarrow>
               (let best_model_name = fst best
                in case getitem (models self) best_model_name of
                     Inl e \<Rightarrow> Inl e
                   | Inr m \<Rightarrow> Inr (self\<lparr>best_model := Some m\<rparr>, best_model_name))))"

text \<open>\<open>[(name, self.models[name]) for name, _ in top_models]\<close>\<close>

fun estimators_of ::
  "(string \<times> 'd artifact) list \<Rightarrow> string list \<Rightarrow> py_error + (string \<times> 'd artifact) list" where
  "estimators_of ms [] = Inr []"
| "estimators_of ms (name # rest) =
     (case getitem ms name of
        Inl e \<Rightarrow> Inl e
      | Inr m \<Rightarrow>
          (case estimators_of ms rest of
             Inl e \<Rightarrow> Inl e
           | Inr es \<Rightarrow> Inr ((name, m) # es)))"

definition create_ensemble_predictor :: "'d predictor \<Rightarrow> 'd \<Rightarrow> py_error + 'd artifact" where
  "create_ensemble_predictor self X_train =
     (let top_models = take 3 (sorted_reverse (\<lambda>x. r2 (snd x)) (model_performance self))
      in case estimators_of (models self) (map fst top_models) of
           Inl e \<Rightarrow> Inl e
         | Inr estimators \<Rightarrow> Inr (VotingRegressor estimators X_train))"

text \<open>
  The files \<open>save_models\<close> writes: a pickled object, or the metadata (the scores, the
  time stamp and the \<open>best_model\<close> entry).
\<close>

datatype 'd saved =
  Pickle "'d artifact option"
| Metadata "(string \<times> metrics) list" string string

definition save_models ::
  "'d predictor \<Rightarrow> string \<Rightarrow> (string \<times> 'd saved) list \<Rightarrow> (string \<times> 'd saved) list" where
  "save_models self now fs =
     (let fs = AList.update ''models/perfect_crop_price_model.pkl'' (Pickle (best_model self)) fs;
          fs = fold (\<lambda>(name, model).
                      AList.update (''models/'' @ lower name @ ''_model.pkl'') (Pickle (Some model)))
                 (models self) fs
      in AList.update ''models/model_metadata.json''
           (Metadata (model_performance self) now ''ensemble'') fs)"

text \<open>
  \<open>train\<close>, on a predictor \<open>self\<close> and the files \<open>fs\<close>: the returned object, the predictor
  and the files afterwards. The scores of the ensemble on the test part are only printed.
  When a step raises, the run ends with the exception.
\<close>

definition train ::
  "('t, 'd) library \<Rightarrow> string \<Rightarrow> string \<Rightarrow> 'd predictor \<Rightarrow> (string \<times> 'd saved) list
     \<Rightarrow> py_error + 'd artifact option \<times> 'd predictor \<times> (string \<times> 'd saved) list" where
  "train lib now file_path self fs =
     (case load_and_prepare_data lib file_path of
        Inl e \<Rightarrow> Inl e
      | Inr df \<Rightarrow>
          (case train_test_split lib df
                  \<lparr>test_size = 0.2, random_state = 42, stratify = Some ''crop''\<rparr> of
             Inl e \<Rightarrow> Inl e
           | Inr (X_train, X_test) \<Rightarrow>
               (case train_ensemble_models lib X_train X_test self of
                  Inl e \<Rightarrow> Inl e
                | Inr (self, best_model_name) \<Rightarrow>
                    (case create_ensemble_predictor self X_train of
                       Inl e \<Rightarrow> Inl e
                     | Inr ensemble_model \<Rightarrow>
                         (let self = self\<lparr>best_model := Some ensemble_model\<rparr>
                          in Inr (best_model self, self, save_models self now fs))))))"


section \<open>The specification's season rule, and sample inputs\<close>

text \<open>
  Stated from the specification: months 12, 1, 2 are Winter; 3, 4, 5 Spring; 6, 7, 8 Summer;
  9, 10, 11 Autumn. It names no season for any other number.
\<close>

definition spec_season :: "int \<Rightarrow> string option" where
  "spec_season m =
     (if m \<in> {12, 1, 2} then Some ''Winter''
      else if m \<in> {3, 4, 5} then Some ''Spring''
      else if m \<in> {6, 7, 8} then Some ''Summer''
      else if m \<in> {9, 10, 11} then Some ''Autumn''
      else None)"

text \<open>A \<open>to_datetime\<close> that parses nothing, for inputs that carry no date string.\<close>

definition no_dates :: "string \<Rightarrow> py_error + timestamp" where
  "no_dates s = Inl (OtherError ''Unknown datetime string format'')"

text \<open>The sample input of the training script's main block.\<close>

definition sample_input :: input_dict where
  "sample_input =
     \<lparr>crop = ''Rice'', state = ''Punjab'', soil_type = ''Alluvial'', month = 10,
      temperature = 28.5, rainfall = 120.0, humidity = 65.0, prev_year_price = 2000.0,
      area = Absent, date = Absent, price = None\<rparr>"

text \<open>A request whose crop, state and soil type are in none of the tables.\<close>

definition unknown_input :: input_dict where
  "unknown_input =
     \<lparr>crop = ''Quinoa'', state = ''Kerala'', soil_type = ''Peaty'', month = 7,
      temperature = 31, rainfall = 250, humidity = 80, prev_year_price = 5200,
      area = Null, date = Null, price = None\<rparr>"

text \<open>
  Fitted models for the examples. The first rejects a row whose temperature-to-rainfall
  ratio is not finite (rainfall of -1), as the library does, and otherwise predicts the
  double nearest to 1.25 times the previous year's price. The second is linear in the
  temperature. The next two give one large double whatever the row.
\<close>

definition sample_model :: fitted_model where
  "sample_model f =
     (case temp_rainfall_ratio f of
        None \<Rightarrow> Inl (ValueError ''Input X contains infinity or a value too large'')
      | Some _ \<Rightarrow> Inr (fl (prev_year_price f * 1.25)))"

definition linear_model :: fitted_model where
  "linear_model f = Inr (fl (prev_year_price f - 75 * temperature f))"

definition large_model :: fitted_model where
  "large_model f = Inr (Finite (2 ^ 50))"

definition huge_model :: fitted_model where
  "huge_model f = Inr (Finite (5 * 2 ^ 1018))"

definition simple_sample_model :: "simple_frame \<Rightarrow> py_error + double" where
  "simple_sample_model f = Inr (fl (prev_year_price (simple_input f) * 1.25))"

definition main_sample_model :: "frame \<Rightarrow> py_error + double" where
  "main_sample_model f = Inr (fl (Rainfall f * 16.66875))"

definition sample_encoders :: encoders where
  "sample_encoders = [''Crop'' \<mapsto> (\<lambda>v. Inr (int (length v))), ''State'' \<mapsto> (\<lambda>v. Inr (int (length v)))]"

definition main_sample_input :: CropPredictionInput where
  "main_sample_input = CropPredictionInput ''Rice'' ''Punjab'' 10 2024 2 120 28.5 65"

definition sample_user :: UserInDB where
  "sample_user = \<lparr>username = ''farmer'', id' = 7\<rparr>"

definition empty_db :: db where
  "empty_db = \<lparr>committed = [], pending = []\<rparr>"

text \<open>
  What the specification asks of a returned price \<open>p\<close> and its interval. \<open>two_decimals v\<close>:
  \<open>v\<close> is the double nearest to a number of hundredths. \<open>within_band\<close>: the price is finite
  and not negative, the interval has two finite bounds, all three have two decimals, and
  the bounds are \<open>0.9 p\<close> and \<open>1.1 p\<close> within rounding tolerance: each of the three values
  is rounded to a hundredth on its own, which allows 0.0095 below and 0.0105 above, and the
  float operations add less than 0.0001. \<open>bounded_price\<close>: a finite, non-negative number
  of at most a billion.
\<close>

definition two_decimals :: "real \<Rightarrow> bool" where
  "two_decimals v = (v = round_to_double (of_int (round_half_even (v * 100)) / 100))"

fun within_band :: "double \<Rightarrow> double list \<Rightarrow> bool" where
  "within_band (Finite p) [Finite lo, Finite hi] =
     (0 \<le> p \<and> two_decimals p \<and> two_decimals lo \<and> two_decimals hi
      \<and> \<bar>lo - 0.9 * p\<bar> \<le> 96 / 10000 \<and> \<bar>hi - 1.1 * p\<bar> \<le> 106 / 10000)"
| "within_band _ _ = False"

fun bounded_price :: "double \<Rightarrow> bool" where
  "bounded_price (Finite x) = (0 \<le> x \<and> x \<le> 10 ^ 9)"
| "bounded_price _ = False"

text \<open>
  Requests as the API hands them on: the sample input with the optional fields left out,
  at a given previous-year price. The batches: one whose prices are 1000, 2000 and 3000,
  one whose mean is not a number of hundredths, one of two prices whose mean is half-way
  between two hundredths, and one whose third item has a rainfall of -1.
\<close>

definition api_input :: "real \<Rightarrow> input_dict" where
  "api_input prev = sample_input\<lparr>prev_year_price := prev, area := Null, date := Null\<rparr>"




definition sample_fn :: predict_fn where
  "sample_fn = predict no_dates ''2024-11-04T10:00:00'' (Some sample_model)"

definition failing_batch :: BatchPredictionRequest where
  "failing_batch =
     \<lparr>predictions =
        [api_input 800, api_input 1600, (api_input 2400)\<lparr>rainfall := - 1\<rparr>, api_input 3200],
      include_insights = True\<rparr>"


text \<open>
  A library for the examples: the table is named by its path, the split gives two named
  parts, which tell a stratified split from a plain shuffle, and the candidates score as
  listed (Lasso best; RandomForest, Ridge and SVR tie).
\<close>

definition sample_library :: "(string, string) library" where
  "sample_library =
     \<lparr>load_and_prepare_data =
        (\<lambda>path. if path = ''data/processed/crop_prices.csv'' then Inr path
                else Inl (OtherError ''No such file or directory'')),
      train_test_split =
        (\<lambda>df args. case stratify args of
                     Some column \<Rightarrow> Inr (''train, stratified'', ''test, stratified'')
                   | None \<Rightarrow> Inr (''train, shuffled'', ''test, shuffled'')),
      fit_and_score =
        (\<lambda>name X_train X_test.
           Inr \<lparr>mae = 100, r2 = (if name = ''Lasso'' then 0.95
                                  else if name \<in> set [''RandomForest'', ''Ridge'', ''SVR''] then 0.9
                                  else 0.5),
                rmse = 150\<rparr>)\<rparr>"

definition sample_ensemble :: "string artifact" where
  "sample_ensemble =
     VotingRegressor
       [(''Lasso'', Pipeline ''Lasso'' ''train, stratified''),
        (''RandomForest'', Pipeline ''RandomForest'' ''train, stratified''),
        (''Ridge'', Pipeline ''Ridge'' ''train, stratified'')]
       ''train, stratified''"

section \<open>Rounding: to an integer, to a double, to two decimals\<close>

lemma round_half_even_error: "\<bar>of_int (round_half_even y) - y\<bar> \<le> 1/2"
  unfolding round_half_even_def Let_def by (auto simp: abs_le_iff)

lemma round_half_even_nonneg: "0 \<le> y \<Longrightarrow> 0 \<le> round_half_even y"
  unfolding round_half_even_def Let_def by auto

lemma round_half_even_unique:
  assumes "\<bar>y - of_int k\<bar> < 1/2"
  shows "round_half_even y = k"
proof -
  have "\<bar>of_int (round_half_even y) - (of_int k :: real)\<bar> < 1"
    using round_half_even_error [of y] assms by linarith
  then have "\<bar>of_int (round_half_even y - k) :: real\<bar> < 1" by simp
  then have "\<bar>round_half_even y - k\<bar> < 1" by linarith
  then show ?thesis by simp
qed

text \<open>
  Rounding to a double moves a number by at most half a quantum: a relative error of
  \<open>2 ^ -53\<close>, or \<open>2 ^ -1075\<close> among the subnormal numbers.
\<close>

lemma pow2_pos: "0 < pow2 e"
  by (simp add: pow2_def)

lemma pow2_powr: "pow2 e = 2 powr (of_int e)"
proof (cases "0 \<le> e")
  case True
  then show ?thesis by (simp add: pow2_def powr_realpow [symmetric])
next
  case False
  then have "(2::real) powr (of_int e) = 1 / 2 powr (of_int (- e))"
    by (simp add: powr_minus_divide)
  also have "\<dots> = 1 / 2 ^ nat (- e)"
    using False by (simp add: powr_realpow [symmetric])
  finally show ?thesis using False by (simp add: pow2_def)
qed

lemma pow2_diff: "pow2 (a - b) = pow2 a / pow2 b"
  by (simp add: pow2_powr powr_diff)

lemma pow2_mono: "a \<le> b \<Longrightarrow> pow2 a \<le> pow2 b"
  by (simp add: pow2_powr)

lemma exponent_lower:
  assumes "r \<noteq> 0"
  shows "pow2 (exponent r) \<le> \<bar>r\<bar>"
proof (cases "1 \<le> \<bar>r\<bar>")
  case True
  let ?n = "\<lfloor>\<bar>r\<bar>\<rfloor>"
  from True have n: "0 < ?n" by linarith
  from bitlen_bounds [OF n] have "2 ^ nat (bitlen ?n - 1) \<le> ?n" by simp
  then have "(2::real) ^ nat (bitlen ?n - 1) \<le> of_int ?n"
    by (metis of_int_le_iff of_int_numeral of_int_power)
  also have "\<dots> \<le> \<bar>r\<bar>" by linarith
  finally have "(2::real) ^ nat (bitlen ?n - 1) \<le> \<bar>r\<bar>" .
  moreover from n have "1 \<le> bitlen ?n" by (auto simp: bitlen_alt_def)
  ultimately show ?thesis using True by (simp add: exponent_def pow2_def)
next
  case False
  let ?z = "1 / \<bar>r\<bar>"
  let ?m = "\<lceil>?z\<rceil> - 1"
  from False assms have r: "0 < \<bar>r\<bar>" "\<bar>r\<bar> < 1" by auto
  then have z: "1 < ?z" by simp
  then have m: "0 < ?m" by linarith
  from bitlen_bounds [OF m] have "?m < 2 ^ nat (bitlen ?m)" by simp
  then have "\<lceil>?z\<rceil> \<le> 2 ^ nat (bitlen ?m)" by linarith
  then have "of_int \<lceil>?z\<rceil> \<le> (2::real) ^ nat (bitlen ?m)"
    by (metis of_int_le_iff of_int_numeral of_int_power)
  moreover have "?z \<le> of_int \<lceil>?z\<rceil>" by linarith
  ultimately have "?z \<le> 2 ^ nat (bitlen ?m)" by linarith
  with r have "1 / 2 ^ nat (bitlen ?m) \<le> \<bar>r\<bar>"
    by (simp add: field_simps)
  moreover from m have "1 \<le> bitlen ?m" by (auto simp: bitlen_alt_def)
  ultimately show ?thesis using False by (simp add: exponent_def pow2_def)
qed

lemma quantum_pos: "0 < quantum r"
  by (simp add: quantum_def pow2_pos)

lemma quantum_bound:
  assumes "r \<noteq> 0"
  shows "quantum r / 2 \<le> \<bar>r\<bar> / 2 ^ 53 + 1 / 2 ^ 1075"
proof (cases "- 1022 \<le> exponent r")
  case True
  then have "quantum r = pow2 (exponent r) / pow2 52"
    by (simp add: quantum_def max_def pow2_diff)
  also have "\<dots> \<le> \<bar>r\<bar> / pow2 52"
    using exponent_lower [OF assms] by (simp add: divide_right_mono pow2_pos less_imp_le)
  finally have "quantum r \<le> \<bar>r\<bar> / 2 ^ 52" by (simp add: pow2_def)
  then show ?thesis by simp
next
  case False
  then have "quantum r = pow2 (- 1074)" by (simp add: quantum_def max_def)
  then have "quantum r / 2 = 1 / 2 ^ 1075" by (simp add: pow2_def)
  then show ?thesis by simp
qed

lemma round_to_double_error:
  "\<bar>round_to_double r - r\<bar> \<le> \<bar>r\<bar> / 2 ^ 53 + 1 / 2 ^ 1075"
proof (cases "r = 0")
  case True
  then show ?thesis by (simp add: round_to_double_def)
next
  case False
  let ?q = "quantum r"
  have q: "0 < ?q" by (rule quantum_pos)
  have "\<bar>of_int (round_half_even (r / ?q)) - r / ?q\<bar> \<le> 1/2"
    by (rule round_half_even_error)
  then have "\<bar>of_int (round_half_even (r / ?q)) - r / ?q\<bar> * ?q \<le> 1/2 * ?q"
    using q by (simp add: mult_right_mono less_imp_le)
  moreover have "\<bar>of_int (round_half_even (r / ?q)) - r / ?q\<bar> * ?q
      = \<bar>of_int (round_half_even (r / ?q)) * ?q - r\<bar>"
  proof -
    have "\<bar>of_int (round_half_even (r / ?q)) - r / ?q\<bar> * ?q
        = \<bar>(of_int (round_half_even (r / ?q)) - r / ?q) * ?q\<bar>"
      using q by (simp add: abs_mult)
    also have "(of_int (round_half_even (r / ?q)) - r / ?q) * ?q
        = of_int (round_half_even (r / ?q)) * ?q - r"
      using q by (simp add: left_diff_distrib)
    finally show ?thesis .
  qed
  ultimately have "\<bar>round_to_double r - r\<bar> \<le> ?q / 2"
    using False by (simp add: round_to_double_def)
  with quantum_bound [OF False] show ?thesis by linarith
qed

lemma round_to_double_nonneg: "0 \<le> r \<Longrightarrow> 0 \<le> round_to_double r"
  using round_half_even_nonneg [of "r / quantum r"] quantum_pos [of r]
  by (simp add: round_to_double_def less_imp_le)

lemma fl_finite:
  assumes "\<bar>r\<bar> \<le> 2 ^ 1000"
  shows "fl r = Finite (round_to_double r)"
proof -
  have "\<bar>round_to_double r\<bar> \<le> \<bar>r\<bar> + (\<bar>r\<bar> / 2 ^ 53 + 1 / 2 ^ 1075)"
    using round_to_double_error [of r] by linarith
  also have "\<dots> \<le> 2 ^ 1000 + (2 ^ 1000 / 2 ^ 53 + 1 / 2 ^ 1075)"
    using assms by (intro add_mono divide_right_mono) simp_all
  also have "\<dots> \<le> max_double" by (simp add: max_double_def)
  finally have "\<bar>round_to_double r\<bar> \<le> max_double" .
  then show ?thesis by (simp add: fl_def Let_def abs_le_iff)
qed


lemma fl_bounded:
  assumes "\<bar>r\<bar> \<le> 2 ^ 1000"
  shows "\<exists>v. fl r = Finite v \<and> \<bar>v - r\<bar> \<le> \<bar>r\<bar> / 2 ^ 53 + 1 / 2 ^ 1075 \<and> (0 \<le> r \<longrightarrow> 0 \<le> v)"
  using fl_finite [OF assms] round_to_double_error [of r] round_to_double_nonneg [of r] by simp

text \<open>The double nearest to a number of cents, and back.\<close>

lemma rounded_cents:
  fixes k :: int
  assumes "\<bar>of_int k :: real\<bar> \<le> 200000000001"
  shows "fl (of_int k / 100) = Finite (round_to_double (of_int k / 100))"
    and "\<bar>round_to_double (of_int k / 100) - of_int k / 100\<bar> \<le> 1 / 1000000"
    and "round_half_even (round_to_double (of_int k / 100) * 100) = k"
    and "0 \<le> k \<Longrightarrow> 0 \<le> round_to_double (of_int k / 100)"
proof -
  have kbound: "\<bar>of_int k / 100 :: real\<bar> \<le> 2000000001" using assms by simp
  then have "\<bar>of_int k / 100 :: real\<bar> \<le> 2 ^ 1000" by simp
  from fl_finite [OF this] show "fl (of_int k / 100) = Finite (round_to_double (of_int k / 100))" .
  have "\<bar>round_to_double (of_int k / 100) - of_int k / 100\<bar>
      \<le> \<bar>of_int k / 100 :: real\<bar> / 2 ^ 53 + 1 / 2 ^ 1075"
    by (rule round_to_double_error)
  also have "\<bar>of_int k / 100 :: real\<bar> / 2 ^ 53 \<le> 2000000001 / 2 ^ 53"
    using kbound by (rule divide_right_mono) simp
  also have "\<dots> + 1 / 2 ^ 1075 \<le> (1 / 1000000 :: real)" by simp
  finally show pe: "\<bar>round_to_double (of_int k / 100) - of_int k / 100\<bar> \<le> 1 / 1000000"
    by linarith
  have "\<bar>round_to_double (of_int k / 100) * 100 - of_int k\<bar> < 1 / 2"
    using pe by linarith
  then show "round_half_even (round_to_double (of_int k / 100) * 100) = k"
    by (rule round_half_even_unique)
  show "0 \<le> round_to_double (of_int k / 100)" if "0 \<le> k"
    using that by (intro round_to_double_nonneg) simp
qed

text \<open>Rounding to two decimals, numpy's way and Python's, of a number below two billion.\<close>

lemma np_round2_bounded:
  assumes "\<bar>x\<bar> \<le> 2000000000"
  shows "\<exists>p. np_round2 (Finite x) = Finite p \<and> two_decimals p
           \<and> \<bar>p - x\<bar> \<le> 5002 / 1000000 \<and> (0 \<le> x \<longrightarrow> 0 \<le> p)"
proof -
  have x100: "\<bar>x * 100\<bar> \<le> 200000000000" using assms by simp
  then have "\<bar>x * 100\<bar> \<le> 2 ^ 1000" by simp
  from fl_bounded [OF this] obtain b where b: "fl (x * 100) = Finite b"
    and be: "\<bar>b - x * 100\<bar> \<le> \<bar>x * 100\<bar> / 2 ^ 53 + 1 / 2 ^ 1075"
    and bs: "0 \<le> x * 100 \<longrightarrow> 0 \<le> b" by blast
  have "\<bar>x * 100\<bar> / 2 ^ 53 \<le> 200000000000 / 2 ^ 53"
    using x100 by (rule divide_right_mono) simp
  also have "\<dots> + 1 / 2 ^ 1075 \<le> (1 / 10000 :: real)" by simp
  finally have be': "\<bar>b - x * 100\<bar> \<le> 1 / 10000" using be by linarith
  define k where "k = round_half_even b"
  have kb: "\<bar>of_int k - b\<bar> \<le> 1 / 2" unfolding k_def by (rule round_half_even_error)
  have kx: "\<bar>of_int k - x * 100\<bar> \<le> 5001 / 10000" using kb be' by linarith
  have kbound: "\<bar>of_int k :: real\<bar> \<le> 200000000001" using kx x100 by linarith
  note c = rounded_cents [OF kbound]
  have "\<bar>of_int k / 100 - x\<bar> \<le> 5001 / 1000000" using kx by linarith
  then have "\<bar>round_to_double (of_int k / 100) - x\<bar> \<le> 5002 / 1000000"
    using c(2) by linarith
  moreover have "0 \<le> x \<longrightarrow> 0 \<le> round_to_double (of_int k / 100)"
    using bs round_half_even_nonneg [of b] c(4) by (simp add: k_def)
  moreover have "np_round2 (Finite x) = Finite (round_to_double (of_int k / 100))"
    by (simp add: np_round2_def b k_def [symmetric] c(1))
  moreover have "two_decimals (round_to_double (of_int k / 100))"
    by (simp add: two_decimals_def c(3))
  ultimately show ?thesis by blast
qed

lemma py_round2_bounded:
  assumes "\<bar>x\<bar> \<le> 2000000000"
  shows "\<exists>p. py_round2 (Finite x) = Finite p \<and> two_decimals p
           \<and> \<bar>p - x\<bar> \<le> 5002 / 1000000 \<and> (0 \<le> x \<longrightarrow> 0 \<le> p)"
proof -
  have x100: "\<bar>x * 100\<bar> \<le> 200000000000" using assms by simp
  define k where "k = round_half_even (x * 100)"
  have kx: "\<bar>of_int k - x * 100\<bar> \<le> 1 / 2" unfolding k_def by (rule round_half_even_error)
  have kbound: "\<bar>of_int k :: real\<bar> \<le> 200000000001" using kx x100 by linarith
  note c = rounded_cents [OF kbound]
  have "\<bar>of_int k / 100 - x\<bar> \<le> 5000 / 1000000" using kx by linarith
  then have "\<bar>round_to_double (of_int k / 100) - x\<bar> \<le> 5002 / 1000000"
    using c(2) by linarith
  moreover have "0 \<le> x \<longrightarrow> 0 \<le> round_to_double (of_int k / 100)"
    using round_half_even_nonneg [of "x * 100"] c(4) by (simp add: k_def)
  moreover have "py_round2 (Finite x) = Finite (round_to_double (of_int k / 100))"
    by (simp add: k_def [symmetric] c(1))
  moreover have "two_decimals (round_to_double (of_int k / 100))"
    by (simp add: two_decimals_def c(3))
  ultimately show ?thesis by blast
qed





text \<open>The literals 0.9 and 1.1 as doubles.\<close>

lemma fl_09: "fl (9 / 10) = Finite (8106479329266893 / 9007199254740992)"
  by (simp add: fl_def max_double_def round_to_double_def quantum_def exponent_def compute_bitlen
      pow2_def round_half_even_def Let_def)

lemma fl_11: "fl (11 / 10) = Finite (2476979795053773 / 2251799813685248)"
  by (simp add: fl_def max_double_def round_to_double_def quantum_def exponent_def compute_bitlen
      pow2_def round_half_even_def Let_def)

lemma fmul_09:
  assumes "0 \<le> x" and "x \<le> 1000000000"
  shows "\<exists>a. fmul (Finite x) (fl (9 / 10)) = Finite a \<and> 0 \<le> a \<and> \<bar>a - 9 / 10 * x\<bar> \<le> 1 / 1000000"
proof -
  let ?r = "x * (8106479329266893 / 9007199254740992)"
  have r: "0 \<le> ?r" "?r \<le> 1000000000" "\<bar>?r - 9 / 10 * x\<bar> \<le> 1 / 10000000"
    using assms by simp_all
  then have "\<bar>?r\<bar> \<le> 2 ^ 1000" by simp
  from fl_bounded [OF this] obtain a where a: "fl ?r = Finite a"
    and ae: "\<bar>a - ?r\<bar> \<le> \<bar>?r\<bar> / 2 ^ 53 + 1 / 2 ^ 1075" and as: "0 \<le> ?r \<longrightarrow> 0 \<le> a" by blast
  have "\<bar>?r\<bar> / 2 ^ 53 \<le> 1000000000 / 2 ^ 53"
    using r(1,2) by (intro divide_right_mono) simp_all
  also have "\<dots> + 1 / 2 ^ 1075 \<le> (2 / 10000000 :: real)" by simp
  finally have "\<bar>a - ?r\<bar> \<le> 2 / 10000000" using ae by linarith
  with r(3) have "\<bar>a - 9 / 10 * x\<bar> \<le> 1 / 1000000" by linarith
  with a as r(1) show ?thesis by (simp add: fl_09)
qed

lemma fmul_11:
  assumes "0 \<le> x" and "x \<le> 1000000000"
  shows "\<exists>a. fmul (Finite x) (fl (11 / 10)) = Finite a \<and> 0 \<le> a \<and> \<bar>a - 11 / 10 * x\<bar> \<le> 1 / 1000000"
proof -
  let ?r = "x * (2476979795053773 / 2251799813685248)"
  have r: "0 \<le> ?r" "?r \<le> 1100000001" "\<bar>?r - 11 / 10 * x\<bar> \<le> 1 / 10000000"
    using assms by simp_all
  then have "\<bar>?r\<bar> \<le> 2 ^ 1000" by simp
  from fl_bounded [OF this] obtain a where a: "fl ?r = Finite a"
    and ae: "\<bar>a - ?r\<bar> \<le> \<bar>?r\<bar> / 2 ^ 53 + 1 / 2 ^ 1075" and as: "0 \<le> ?r \<longrightarrow> 0 \<le> a" by blast
  have "\<bar>?r\<bar> / 2 ^ 53 \<le> 1100000001 / 2 ^ 53"
    using r(1,2) by (intro divide_right_mono) simp_all
  also have "\<dots> + 1 / 2 ^ 1075 \<le> (2 / 10000000 :: real)" by simp
  finally have "\<bar>a - ?r\<bar> \<le> 2 / 10000000" using ae by linarith
  with r(3) have "\<bar>a - 11 / 10 * x\<bar> \<le> 1 / 1000000" by linarith
  with a as r(1) show ?thesis by (simp add: fl_11)
qed

text \<open>Overflow: an exact value of at least \<open>2 ^ 1025\<close> is rounded to infinity.\<close>

lemma fl_overflow:
  assumes "2 ^ 1025 \<le> r"
  shows "fl r = PInf"
proof -
  have "\<bar>round_to_double r - r\<bar> \<le> \<bar>r\<bar> / 2 ^ 53 + 1 / 2 ^ 1075"
    by (rule round_to_double_error)
  moreover have "0 \<le> r" using assms by (rule order_trans [rotated]) simp
  ultimately have "r - r / 2 ^ 53 - 1 / 2 ^ 1075 \<le> round_to_double r" by linarith
  moreover have "max_double < r - r / 2 ^ 53 - 1 / 2 ^ 1075"
    using assms unfolding max_double_def by simp
  ultimately show ?thesis by (simp add: fl_def Let_def)
qed

lemma np_round2_overflow:
  assumes "2 ^ 1025 \<le> x * 100"
  shows "np_round2 (Finite x) = PInf"
  using fl_overflow [OF assms] by (simp add: np_round2_def)







section \<open>Feature engineering: seasons and table lookups\<close>

lemma season_table_lookup: "series_map season_table m = spec_season m"
proof (cases "1 \<le> m \<and> m \<le> 12")
  case True
  then have "m \<in> {1, 2, 3, 4, 5, 6, 7, 8, 9, 10, 11, 12}" by simp arith
  then show ?thesis
    by (elim insertE emptyE) (simp_all add: series_map_def season_table_def spec_season_def)
next
  case False
  then show ?thesis
    by (auto simp: series_map_def season_table_def spec_season_def)
qed

lemma afe_columns:
  assumes "apply_feature_engineering to_datetime df = Inr f"
  shows "season f = series_map season_table (month df)"
    and "crop_category f = fillna ''Other'' (series_map crop_category_table (crop df))"
    and "state_economic_factor f = fillna 1.0 (series_map state_economic_factors (state df))"
    and "soil_productivity f = fillna 1.0 (series_map soil_productivity_table (soil_type df))"
  using assms
  by (auto simp: apply_feature_engineering_def input_dict.defs features.defs
      split: entry.splits sum.splits)

lemma afe_error:
  assumes "apply_feature_engineering to_datetime df = Inl e"
  shows "\<exists>s. date df = Val s \<and> to_datetime s = Inl e"
  using assms
  by (auto simp: apply_feature_engineering_def split: entry.splits sum.splits)

lemma fillna_absent: "k \<notin> fst ` set d \<Longrightarrow> fillna v (series_map d k) = v"
  by (simp add: fillna_def series_map_def map_of_eq_None_iff [symmetric])

text \<open>
  Claim C6. The season mapping is the specification's rule on every month: the table sends
  12, 1, 2 to Winter, 3, 4, 5 to Spring, 6, 7, 8 to Summer and 9, 10, 11 to Autumn (and has
  no other key), and the \<open>season\<close> column of the engineered frame, in the predictor and in
  the simple API variant, is the table's value at the row's month.
\<close>

theorem season_exhaustive:
  "series_map season_table m = spec_season m
   \<and> (apply_feature_engineering to_datetime df = Inr f \<longrightarrow> season f = spec_season (month df))
   \<and> simple_season (simple_features inp) = spec_season (month inp)"
  using afe_columns(1) [of to_datetime df f]
  by (simp add: season_table_lookup simple_features_def)

theorem season_exhaustive_witness:
  "map (series_map season_table) [1, 2, 3, 4, 5, 6, 7, 8, 9, 10, 11, 12] =
     [Some ''Winter'', Some ''Winter'', Some ''Spring'', Some ''Spring'', Some ''Spring'',
      Some ''Summer'', Some ''Summer'', Some ''Summer'', Some ''Autumn'', Some ''Autumn'',
      Some ''Autumn'', Some ''Winter'']
   \<and> (\<exists>f. apply_feature_engineering no_dates sample_input = Inr f \<and> season f = Some ''Autumn'')
   \<and> simple_season (simple_features (PredictionInput.truncate sample_input)) = Some ''Autumn''"
proof -
  have "\<exists>f. apply_feature_engineering no_dates sample_input = Inr f"
    by (simp add: apply_feature_engineering_def sample_input_def)
  then obtain f where f: "apply_feature_engineering no_dates sample_input = Inr f" ..
  have m: "month (PredictionInput.truncate sample_input) = 10" "month sample_input = 10"
    by (simp_all add: sample_input_def PredictionInput.truncate_def)
  note s = season_exhaustive [where to_datetime = no_dates and df = sample_input and f = f
      and inp = "PredictionInput.truncate sample_input"]
  from s f m have "season f = Some ''Autumn''"
    and "simple_season (simple_features (PredictionInput.truncate sample_input)) = Some ''Autumn''"
    by (simp_all add: spec_season_def)
  moreover from s have "map (series_map season_table) [1, 2, 3, 4, 5, 6, 7, 8, 9, 10, 11, 12] =
     [Some ''Winter'', Some ''Winter'', Some ''Spring'', Some ''Spring'', Some ''Spring'',
      Some ''Summer'', Some ''Summer'', Some ''Summer'', Some ''Autumn'', Some ''Autumn'',
      Some ''Autumn'', Some ''Winter'']"
    by (simp add: series_map_def season_table_def)
  ultimately show ?thesis using f by blast
qed

text \<open>
  Claim C7. Feature engineering at prediction time raises only when a date string does
  not parse; the three table lookups never raise. On the frame it returns, a crop that is
  not a key of the crop table has category \<open>Other\<close>, a state that is not a key of the state
  table has economic factor 1.0, and a soil type that is not a key of the soil table has
  productivity 1.0.
\<close>

theorem lookups_total:
  "(case apply_feature_engineering to_datetime df of
      Inl e \<Rightarrow> \<exists>s. date df = Val s \<and> to_datetime s = Inl e
    | Inr f \<Rightarrow>
        (crop df \<notin> fst ` set crop_category_table \<longrightarrow> crop_category f = ''Other'')
      \<and> (state df \<notin> fst ` set state_economic_factors \<longrightarrow> state_economic_factor f = 1.0)
      \<and> (soil_type df \<notin> fst ` set soil_productivity_table \<longrightarrow> soil_productivity f = 1.0))"
  by (auto split: sum.split simp: afe_columns fillna_absent dest: afe_error)

theorem lookups_total_witness:
  "\<exists>f. apply_feature_engineering no_dates unknown_input = Inr f
     \<and> crop_category f = ''Other'' \<and> state_economic_factor f = 1 \<and> soil_productivity f = 1"
proof -
  have "\<exists>f. apply_feature_engineering no_dates unknown_input = Inr f"
    by (simp add: apply_feature_engineering_def unknown_input_def)
  then obtain f where f: "apply_feature_engineering no_dates unknown_input = Inr f" ..
  have k: "crop unknown_input \<notin> fst ` set crop_category_table"
    "state unknown_input \<notin> fst ` set state_economic_factors"
    "soil_type unknown_input \<notin> fst ` set soil_productivity_table"
    by (simp_all add: unknown_input_def crop_category_table_def state_economic_factors_def
        soil_productivity_table_def)
  from lookups_total [where to_datetime = no_dates and df = unknown_input] f k
  show ?thesis by simp
qed

section \<open>The prediction result\<close>

lemmas evaluate_double =
  fl_def max_double_def round_to_double_def quantum_def exponent_def compute_bitlen pow2_def
  round_half_even_def np_round2_def two_decimals_def Let_def

lemmas evaluate_predict =
  predict_def apply_feature_engineering_def sample_input_def no_dates_def np_div_def
  evaluate_double

text \<open>
  The band around a bounded price: numpy's rounding (the predictor and the simple variant)
  and Python's (the basic variant).
\<close>

lemma band_np:
  assumes "bounded_price d"
  shows "within_band (np_round2 d) [np_round2 (fmul d (fl 0.9)), np_round2 (fmul d (fl 1.1))]"
proof -
  from assms obtain x where d: "d = Finite x" and x: "0 \<le> x" "x \<le> 1000000000"
    by (cases d) simp_all
  from x have "\<bar>x\<bar> \<le> 2000000000" by simp
  from np_round2_bounded [OF this] x(1) obtain p where p: "np_round2 (Finite x) = Finite p"
    and p2: "two_decimals p" and pe: "\<bar>p - x\<bar> \<le> 5002 / 1000000" and p0: "0 \<le> p" by blast
  from fmul_09 [OF x] obtain a where a: "fmul (Finite x) (fl (9 / 10)) = Finite a"
    and a0: "0 \<le> a" and ae: "\<bar>a - 9 / 10 * x\<bar> \<le> 1 / 1000000" by blast
  have "\<bar>a\<bar> \<le> 2000000000" using a0 ae x by linarith
  from np_round2_bounded [OF this] obtain lo where lo: "np_round2 (Finite a) = Finite lo"
    and lo2: "two_decimals lo" and loe: "\<bar>lo - a\<bar> \<le> 5002 / 1000000" by blast
  from fmul_11 [OF x] obtain b where b: "fmul (Finite x) (fl (11 / 10)) = Finite b"
    and b0: "0 \<le> b" and be: "\<bar>b - 11 / 10 * x\<bar> \<le> 1 / 1000000" by blast
  have "\<bar>b\<bar> \<le> 2000000000" using b0 be x by linarith
  from np_round2_bounded [OF this] obtain hi where hi: "np_round2 (Finite b) = Finite hi"
    and hi2: "two_decimals hi" and hie: "\<bar>hi - b\<bar> \<le> 5002 / 1000000" by blast
  have 1: "\<bar>lo - 9 / 10 * p\<bar> \<le> 96 / 10000" using loe ae pe by linarith
  have 2: "\<bar>hi - 11 / 10 * p\<bar> \<le> 106 / 10000" using hie be pe by linarith
  show ?thesis
    unfolding d p a lo b hi within_band.simps using p0 p2 lo2 hi2 1 2 by (intro conjI)
qed

lemma band_py:
  assumes "bounded_price d"
  shows "within_band (py_round2 d) [py_round2 (fmul d (fl 0.9)), py_round2 (fmul d (fl 1.1))]"
proof -
  from assms obtain x where d: "d = Finite x" and x: "0 \<le> x" "x \<le> 1000000000"
    by (cases d) simp_all
  from x have "\<bar>x\<bar> \<le> 2000000000" by simp
  from py_round2_bounded [OF this] x(1) obtain p where p: "py_round2 (Finite x) = Finite p"
    and p2: "two_decimals p" and pe: "\<bar>p - x\<bar> \<le> 5002 / 1000000" and p0: "0 \<le> p" by blast
  from fmul_09 [OF x] obtain a where a: "fmul (Finite x) (fl (9 / 10)) = Finite a"
    and a0: "0 \<le> a" and ae: "\<bar>a - 9 / 10 * x\<bar> \<le> 1 / 1000000" by blast
  have "\<bar>a\<bar> \<le> 2000000000" using a0 ae x by linarith
  from py_round2_bounded [OF this] obtain lo where lo: "py_round2 (Finite a) = Finite lo"
    and lo2: "two_decimals lo" and loe: "\<bar>lo - a\<bar> \<le> 5002 / 1000000" by blast
  from fmul_11 [OF x] obtain b where b: "fmul (Finite x) (fl (11 / 10)) = Finite b"
    and b0: "0 \<le> b" and be: "\<bar>b - 11 / 10 * x\<bar> \<le> 1 / 1000000" by blast
  have "\<bar>b\<bar> \<le> 2000000000" using b0 be x by linarith
  from py_round2_bounded [OF this] obtain hi where hi: "py_round2 (Finite b) = Finite hi"
    and hi2: "two_decimals hi" and hie: "\<bar>hi - b\<bar> \<le> 5002 / 1000000" by blast
  have 1: "\<bar>lo - 9 / 10 * p\<bar> \<le> 96 / 10000" using loe ae pe by linarith
  have 2: "\<bar>hi - 11 / 10 * p\<bar> \<le> 106 / 10000" using hie be pe by linarith
  show ?thesis
    unfolding d p a lo b hi within_band.simps using p0 p2 lo2 hi2 1 2 by (intro conjI)
qed

lemma predict_Inr:
  assumes "predict to_datetime now bm inp = Inr r"
  shows "\<exists>m f d. bm = Some m \<and> apply_feature_engineering to_datetime inp = Inr f
           \<and> m f = Inr d \<and> predicted_price r = np_round2 d
           \<and> confidence_interval r = [np_round2 (fmul d (fl 0.9)), np_round2 (fmul d (fl 1.1))]"
  using assms by (auto simp: predict_def Let_def split: option.splits sum.splits)

lemma simple_predict_Response:
  assumes "simple_predict_price MODEL now inp = Response r"
  shows "\<exists>m d. MODEL = Some m \<and> m (simple_features inp) = Inr d \<and> predicted_price r = np_round2 d
           \<and> confidence_interval r = [np_round2 (fmul d (fl 0.9)), np_round2 (fmul d (fl 1.1))]"
  using assms by (auto simp: simple_predict_price_def Let_def split: option.splits sum.splits)

lemma main_predict_Response:
  assumes "main_predict_price model enc (CropPredictionInput c s mo y a r t h) = Response (p, ci, cur)"
  shows "\<exists>m e c' s' d. model = Some m \<and> enc = Some e \<and> encode e ''Crop'' c = Inr c'
           \<and> encode e ''State'' s = Inr s'
           \<and> m \<lparr>Crop = c', State = s', Month = mo, Year = y, Area = a, Rainfall = r,
                 Temperature = t, Humidity = h\<rparr> = Inr d
           \<and> p = py_round2 d \<and> ci = [py_round2 (fmul d (fl 0.9)), py_round2 (fmul d (fl 1.1))]"
  using assms
  by (cases model; cases enc) (auto simp: Let_def split: sum.splits)

text \<open>
  Claim C1, as amended. Whenever a prediction is returned, by the predictor or by the simple
  or basic API variant, there is the double \<open>d\<close> the fitted model gave for the request; the
  predicted price is \<open>d\<close> rounded to two decimals and the confidence interval is the two
  products of \<open>d\<close> by 0.9 and by 1.1, each rounded to two decimals (by numpy's \<open>round\<close> in
  the predictor and the simple variant, by Python's in the basic one). When \<open>d\<close> is finite,
  not negative and at most a billion, then the price \<open>p\<close> is finite and not negative, the
  interval has two finite bounds, all three have two decimals, and the bounds are within
  0.0096 of \<open>0.9 p\<close> and within 0.0106 of \<open>1.1 p\<close>. Nothing in the code bounds the output of
  the model.
\<close>

theorem confidence_band:
  "(predict to_datetime now bm inp = Inr res \<longrightarrow>
      (\<exists>m f d. bm = Some m \<and> apply_feature_engineering to_datetime inp = Inr f
         \<and> m f = Inr d
         \<and> predicted_price res = np_round2 d
         \<and> confidence_interval res = [np_round2 (fmul d (fl 0.9)), np_round2 (fmul d (fl 1.1))]
         \<and> (bounded_price d \<longrightarrow> within_band (predicted_price res) (confidence_interval res))))
   \<and> (simple_predict_price MODEL now inp' = Response res' \<longrightarrow>
      (\<exists>m d. MODEL = Some m \<and> m (simple_features inp') = Inr d
         \<and> predicted_price res' = np_round2 d
         \<and> confidence_interval res' = [np_round2 (fmul d (fl 0.9)), np_round2 (fmul d (fl 1.1))]
         \<and> (bounded_price d \<longrightarrow> within_band (predicted_price res') (confidence_interval res'))))
   \<and> (main_predict_price model enc (CropPredictionInput c s mo y a r t h) = Response (p, ci, cur) \<longrightarrow>
      (\<exists>m e c' s' d. model = Some m \<and> enc = Some e \<and> encode e ''Crop'' c = Inr c'
         \<and> encode e ''State'' s = Inr s'
         \<and> m \<lparr>Crop = c', State = s', Month = mo, Year = y, Area = a, Rainfall = r,
               Temperature = t, Humidity = h\<rparr> = Inr d
         \<and> p = py_round2 d
         \<and> ci = [py_round2 (fmul d (fl 0.9)), py_round2 (fmul d (fl 1.1))]
         \<and> (bounded_price d \<longrightarrow> within_band p ci)))"
proof (intro conjI impI)
  assume "predict to_datetime now bm inp = Inr res"
  from predict_Inr [OF this] show "\<exists>m f d. bm = Some m \<and> apply_feature_engineering to_datetime inp = Inr f
         \<and> m f = Inr d
         \<and> predicted_price res = np_round2 d
         \<and> confidence_interval res = [np_round2 (fmul d (fl 0.9)), np_round2 (fmul d (fl 1.1))]
         \<and> (bounded_price d \<longrightarrow> within_band (predicted_price res) (confidence_interval res))"
    using band_np by auto
next
  assume "simple_predict_price MODEL now inp' = Response res'"
  from simple_predict_Response [OF this] show "\<exists>m d. MODEL = Some m \<and> m (simple_features inp') = Inr d
         \<and> predicted_price res' = np_round2 d
         \<and> confidence_interval res' = [np_round2 (fmul d (fl 0.9)), np_round2 (fmul d (fl 1.1))]
         \<and> (bounded_price d \<longrightarrow> within_band (predicted_price res') (confidence_interval res'))"
    using band_np by auto
next
  assume "main_predict_price model enc (CropPredictionInput c s mo y a r t h) = Response (p, ci, cur)"
  from main_predict_Response [OF this] show "\<exists>m e c' s' d. model = Some m \<and> enc = Some e \<and> encode e ''Crop'' c = Inr c'
         \<and> encode e ''State'' s = Inr s'
         \<and> m \<lparr>Crop = c', State = s', Month = mo, Year = y, Area = a, Rainfall = r,
               Temperature = t, Humidity = h\<rparr> = Inr d
         \<and> p = py_round2 d
         \<and> ci = [py_round2 (fmul d (fl 0.9)), py_round2 (fmul d (fl 1.1))]
         \<and> (bounded_price d \<longrightarrow> within_band p ci)"
    using band_py by auto
qed

text \<open>
  Claim C1 as stated fails. On the training script's sample input, a fitted model that is
  linear in the temperature gives -137.5, which is returned as the predicted price, with
  the interval [-123.75, -151.25]. A fitted model whose output is the finite double
  \<open>5 * 2 ^ 1018\<close> is answered with an infinite price: the product by 100 inside numpy's
  \<open>round\<close> overflows. And for the output \<open>2 ^ 50\<close>, where neighbouring doubles are 0.125
  or more apart, the returned bounds are 0.025 and 0.1 away from \<open>0.9 p\<close> and \<open>1.1 p\<close>.
\<close>

theorem predict_negative_counterexample:
  "map_sum id predicted_price (predict no_dates ''2024-11-04T10:00:00'' (Some linear_model) sample_input)
     = Inr (Finite (- 137.5))
   \<and> map_sum id confidence_interval
       (predict no_dates ''2024-11-04T10:00:00'' (Some linear_model) sample_input)
     = Inr [Finite (- 123.75), Finite (- 151.25)]
   \<and> map_sum id predicted_price (predict no_dates ''2024-11-04T10:00:00'' (Some huge_model) sample_input)
     = Inr PInf
   \<and> map_sum id (\<lambda>r. (predicted_price r, confidence_interval r))
       (predict no_dates ''2024-11-04T10:00:00'' (Some large_model) sample_input)
     = Inr (Finite (2 ^ 50), [Finite (8106479329266893 / 8), Finite (2476979795053773 / 2)])
   \<and> within_band (Finite (2 ^ 50)) [Finite (8106479329266893 / 8), Finite (2476979795053773 / 2)]
     = False"
proof -
  have 1: "map_sum id predicted_price
        (predict no_dates ''2024-11-04T10:00:00'' (Some linear_model) sample_input)
      = Inr (Finite (- 137.5))"
    by (simp add: evaluate_predict linear_model_def input_dict.defs features.defs)
  have 2: "map_sum id confidence_interval
        (predict no_dates ''2024-11-04T10:00:00'' (Some linear_model) sample_input)
      = Inr [Finite (- 123.75), Finite (- 151.25)]"
    by (simp add: evaluate_predict linear_model_def input_dict.defs features.defs)
  have 3: "map_sum id predicted_price
        (predict no_dates ''2024-11-04T10:00:00'' (Some huge_model) sample_input) = Inr PInf"
    by (simp add: predict_def apply_feature_engineering_def sample_input_def huge_model_def
        np_round2_overflow Let_def)
  have 4: "map_sum id (\<lambda>r. (predicted_price r, confidence_interval r))
        (predict no_dates ''2024-11-04T10:00:00'' (Some large_model) sample_input)
      = Inr (Finite (2 ^ 50), [Finite (8106479329266893 / 8), Finite (2476979795053773 / 2)])"
    by (simp add: evaluate_predict large_model_def input_dict.defs features.defs)
  have 5: "within_band (Finite (2 ^ 50)) [Finite (8106479329266893 / 8), Finite (2476979795053773 / 2)]
      = False"
    by simp
  from 1 2 3 4 5 show ?thesis by (intro conjI)
qed

theorem confidence_band_witness:
  "(\<exists>res. predict no_dates ''2024-11-04T10:00:00'' (Some sample_model)
             (sample_input\<lparr>prev_year_price := 1600.2\<rparr>) = Inr res
       \<and> predicted_price res = fl 2000.25 \<and> confidence_interval res = [fl 1800.22, fl 2200.28]
       \<and> within_band (predicted_price res) (confidence_interval res))
   \<and> (\<exists>res. simple_predict_price (Some simple_sample_model) ''2024-11-04T10:00:00''
             (PredictionInput.truncate (sample_input\<lparr>prev_year_price := 1600.2\<rparr>)) = Response res
       \<and> predicted_price res = fl 2000.25 \<and> confidence_interval res = [fl 1800.22, fl 2200.28]
       \<and> within_band (predicted_price res) (confidence_interval res))
   \<and> (\<exists>p ci. main_predict_price (Some main_sample_model) (Some sample_encoders) main_sample_input
             = Response (p, ci, ''INR'')
       \<and> p = fl 2000.25 \<and> ci = [fl 1800.23, fl 2200.28] \<and> within_band p ci)"
proof -
  let ?inp = "sample_input\<lparr>prev_year_price := 1600.2\<rparr>"
  have 1: "\<exists>res. predict no_dates ''2024-11-04T10:00:00'' (Some sample_model) ?inp = Inr res
      \<and> predicted_price res = fl 2000.25 \<and> confidence_interval res = [fl 1800.22, fl 2200.28]"
    by (simp add: evaluate_predict sample_model_def input_dict.defs features.defs)
  have 2: "\<exists>res. simple_predict_price (Some simple_sample_model) ''2024-11-04T10:00:00''
             (PredictionInput.truncate ?inp) = Response res
       \<and> predicted_price res = fl 2000.25 \<and> confidence_interval res = [fl 1800.22, fl 2200.28]"
    by (simp add: evaluate_predict simple_predict_price_def simple_features_def simple_sample_model_def
        PredictionInput.truncate_def)
  have 3: "main_predict_price (Some main_sample_model) (Some sample_encoders) main_sample_input
             = Response (fl 2000.25, [fl 1800.23, fl 2200.28], ''INR'')"
    by (simp add: evaluate_predict main_sample_input_def main_sample_model_def sample_encoders_def encode_def)
  have b: "bounded_price (fl 2000.25)" by (simp add: evaluate_double)
  from 1 obtain res where r: "predict no_dates ''2024-11-04T10:00:00'' (Some sample_model) ?inp = Inr res"
      "predicted_price res = fl 2000.25" "confidence_interval res = [fl 1800.22, fl 2200.28]" by blast
  from 2 obtain res' where r': "simple_predict_price (Some simple_sample_model) ''2024-11-04T10:00:00''
             (PredictionInput.truncate ?inp) = Response res'"
       "predicted_price res' = fl 2000.25" "confidence_interval res' = [fl 1800.22, fl 2200.28]" by blast
  have m: "sample_model f = Inr d \<Longrightarrow> apply_feature_engineering no_dates ?inp = Inr f
      \<Longrightarrow> d = fl 2000.25" for f d
    by (auto simp: sample_model_def apply_feature_engineering_def sample_input_def
        input_dict.defs features.defs split: option.splits)
  have m': "simple_sample_model (simple_features (PredictionInput.truncate ?inp)) = Inr (fl 2000.25)"
    by (simp add: simple_sample_model_def simple_features_def PredictionInput.truncate_def
        sample_input_def)
  have m'': "main_sample_model f = Inr d \<Longrightarrow> Rainfall f = 120 \<Longrightarrow> d = fl 2000.25" for f d
    by (auto simp: main_sample_model_def)
  note t = confidence_band [where to_datetime = no_dates and now = "''2024-11-04T10:00:00''"
      and bm = "Some sample_model" and inp = ?inp and res = res
      and MODEL = "Some simple_sample_model" and inp' = "PredictionInput.truncate ?inp" and res' = res'
      and model = "Some main_sample_model" and enc = "Some sample_encoders"
      and c = "''Rice''" and s = "''Punjab''" and mo = 10 and y = 2024 and a = 2 and r = 120
      and t = "28.5" and h = 65 and p = "fl 2000.25" and ci = "[fl 1800.23, fl 2200.28]"
      and cur = "''INR''"]
  from t r m b have "within_band (predicted_price res) (confidence_interval res)" by auto
  moreover from t r' m' b have "within_band (predicted_price res') (confidence_interval res')"
    by auto
  moreover from t 3 m'' b have "within_band (fl 2000.25) [fl 1800.23, fl 2200.28]"
    unfolding main_sample_input_def by auto
  ultimately show ?thesis using r r' 3 by blast
qed

section \<open>The API layer without a model, and the health check\<close>

text \<open>
  Claim C3. With no model loaded, the handler of POST /predict raises the 503
  service-unavailable exception for every request, in the perfect, basic and simple
  variants: nothing is predicted and the database is left as it was. In the basic variant
  the model and the encoders are loaded together, and either one missing gives the 503.
\<close>

theorem no_model_is_503:
  "predict_price None inp current_user d
     = (HTTPException 503 ''Prediction service not available'', d)
   \<and> main_predict_price None enc inp' = HTTPException 503 ''Model not loaded''
   \<and> main_predict_price model None inp' = HTTPException 503 ''Model not loaded''
   \<and> simple_predict_price None now inp'' = HTTPException 503 ''Model not available''"
  by (cases model; cases enc; simp add: predict_price_def simple_predict_price_def)

text \<open>
  Claim C10. The health check answers \<open>healthy\<close> with the time stamp whatever the state of
  the model, in the perfect and the simple variant; \<open>model_loaded\<close> is true exactly when
  the module-level prediction function (or model) is not \<open>None\<close>; and \<open>model_loaded\<close> is
  the only field that tells: without it, the response is the one given with no model.
\<close>

theorem health_always_healthy:
  "map_of (health_check PREDICT_FN utcnow) ''status'' = Some (Str ''healthy'')
   \<and> map_of (health_check PREDICT_FN utcnow) ''timestamp'' = Some (Str utcnow)
   \<and> map_of (health_check PREDICT_FN utcnow) ''model_loaded'' = Some (Bool (PREDICT_FN \<noteq> None))
   \<and> AList.delete ''model_loaded'' (health_check PREDICT_FN utcnow)
       = AList.delete ''model_loaded'' (health_check None utcnow)
   \<and> map_of (simple_health_check MODEL utcnow) ''status'' = Some (Str ''healthy'')
   \<and> map_of (simple_health_check MODEL utcnow) ''timestamp'' = Some (Str utcnow)
   \<and> map_of (simple_health_check MODEL utcnow) ''model_loaded'' = Some (Bool (MODEL \<noteq> None))
   \<and> AList.delete ''model_loaded'' (simple_health_check MODEL utcnow)
       = AList.delete ''model_loaded'' (simple_health_check None utcnow)"
  by (simp add: health_check_def simple_health_check_def is_not_None_def AList.delete_eq
      split: option.split)

section \<open>Batch prediction\<close>

text \<open>
  Claim C9. With a model loaded, a batch request with an empty list of predictions is
  answered with HTTP 400: the average divides by the number of results, zero, and the
  handler turns the exception into the 400 with its message. Nothing is written.
\<close>

theorem batch_empty_is_400:
  "predict_batch (Some fn) \<lparr>predictions = [], include_insights = insights\<rparr> current_user d
     = (HTTPException 400 ''division by zero'', d)"
  by (simp add: predict_batch_def make_summary_def)

lemma predicted_price_add_insights [simp]:
  "predicted_price (add_insights result inp) = predicted_price result"
  by (simp add: add_insights_def Let_def)




lemmas evaluate_batch =
  predict_batch_def make_summary_def py_sum_def save_prediction_def execute_insert_def commit_def
  add_insights_def generate_market_insights_def generate_recommendations_def
  lower_def lower_char_def char_of_eq_iff
  sample_fn_def api_input_def sample_user_def empty_db_def sample_model_def
  predict_def apply_feature_engineering_def sample_input_def no_dates_def np_div_def
  evaluate_double
  input_dict.defs features.defs len_columns_def input_columns_def



lemma batch_loop_fails:
  assumes "\<forall>x \<in> set pre. \<exists>r. fn x = Inr r" and "fn bad = Inl e"
  shows "batch_loop fn insights u (pre @ bad # rest) acc d
           = (Inl e, fold (\<lambda>x. save_prediction u x
                 (if insights then add_insights (projr (fn x)) x else projr (fn x))) pre d)"
  using assms(1)
proof (induction pre arbitrary: acc d)
  case Nil
  then show ?case using assms(2) by simp
next
  case (Cons x pre)
  then obtain r where "fn x = Inr r" by auto
  with Cons show ?case by (simp add: Let_def)
qed

lemma fold_save_prediction:
  assumes "pending d = []"
  shows "fold (\<lambda>x. save_prediction u x (g x)) xs d
           = \<lparr>committed = committed d
                 @ map (\<lambda>x. \<lparr>user_id = id' u, input_data = x, prediction_result = g x,
                              model_used = ''perfect_ai''\<rparr>) xs,
              pending = []\<rparr>"
  using assms
proof (induction xs arbitrary: d)
  case Nil
  then show ?case by simp
next
  case (Cons x xs)
  have "pending (save_prediction u x (g x) d) = []"
    by (simp add: save_prediction_def commit_def)
  from Cons.IH [OF this] Cons.prems show ?case
    by (simp add: save_prediction_def commit_def execute_insert_def)
qed

text \<open>
  Claim C8. Batch persistence is not atomic. When the prediction function succeeds on the
  first items of a batch and raises on the next one, the client gets HTTP 400 with the
  exception's message, and the rows of the earlier items, each inserted and committed in
  its own round of the loop, are in the \<open>predictions\<close> table, with nothing pending. (No
  transaction is open when a request starts: every handler commits after its insert.)
\<close>
theorem batch_not_atomic:
  assumes "pending d = []"
    and "\<forall>x \<in> set pre. \<exists>r. fn x = Inr r"
    and "fn bad = Inl e"
  shows "predict_batch (Some fn) \<lparr>predictions = pre @ bad # rest, include_insights = insights\<rparr>
           current_user d
         = (HTTPException 400 (str e),
            \<lparr>committed = committed d
               @ map (\<lambda>x. \<lparr>user_id = id' current_user, input_data = x,
                            prediction_result =
                              (if insights then add_insights (projr (fn x)) x else projr (fn x)),
                            model_used = ''perfect_ai''\<rparr>) pre,
             pending = []\<rparr>)"
  using batch_loop_fails [OF assms(2,3)] fold_save_prediction [OF assms(1)]
  by (simp add: predict_batch_def)


theorem batch_not_atomic_witness:
  "fst (predict_batch (Some sample_fn) failing_batch sample_user empty_db)
     = HTTPException 400 ''Input X contains infinity or a value too large''
   \<and> map input_data (committed (snd (predict_batch (Some sample_fn) failing_batch sample_user empty_db)))
     = [api_input 800, api_input 1600]
   \<and> map (\<lambda>row. predicted_price (prediction_result row))
       (committed (snd (predict_batch (Some sample_fn) failing_batch sample_user empty_db)))
     = [Finite 1000, Finite 2000]
   \<and> pending (snd (predict_batch (Some sample_fn) failing_batch sample_user empty_db)) = []"
proof -
  let ?bad = "(api_input 2400)\<lparr>rainfall := - 1\<rparr>"
  let ?e = "ValueError ''Input X contains infinity or a value too large''"
  have ok: "sample_fn (api_input 800) = Inr (projr (sample_fn (api_input 800)))"
    "sample_fn (api_input 1600) = Inr (projr (sample_fn (api_input 1600)))"
    by (simp_all add: evaluate_batch)
  have price: "predicted_price (projr (sample_fn (api_input 800))) = Finite 1000"
    "predicted_price (projr (sample_fn (api_input 1600))) = Finite 2000"
    by (simp_all add: evaluate_batch)
  have pre: "\<forall>x \<in> set [api_input 800, api_input 1600]. \<exists>r. sample_fn x = Inr r"
    using ok by auto
  have bad: "sample_fn ?bad = Inl ?e"
    by (simp add: evaluate_batch)
  have empty: "pending empty_db = []" "committed empty_db = []"
    by (simp_all add: empty_db_def)
  have split: "failing_batch = \<lparr>predictions = [api_input 800, api_input 1600] @ ?bad # [api_input 3200],
      include_insights = True\<rparr>"
    by (simp add: failing_batch_def)
  show ?thesis
    unfolding split batch_not_atomic [OF empty(1) pre bad]
    by (simp add: empty price)
qed

section \<open>Training: the served model is the top-3 ensemble\<close>

lemma train_loop_Inr:
  assumes "train_loop lib tr te names self = Inr self'"
  shows "(\<forall>n \<in> set names. \<exists>m. fit_and_score lib n tr te = Inr m)
     \<and> model_performance self'
         = fold (\<lambda>n. AList.update n (projr (fit_and_score lib n tr te))) names (model_performance self)
     \<and> models self' = fold (\<lambda>n. AList.update n (Pipeline n tr)) names (models self)
     \<and> best_model self' = best_model self"
  using assms
proof (induction names arbitrary: self)
  case Nil
  then show ?case by simp
next
  case (Cons n names)
  from Cons.prems obtain m where m: "fit_and_score lib n tr te = Inr m"
    by (cases "fit_and_score lib n tr te") auto
  let ?self = "self\<lparr>model_performance := AList.update n m (model_performance self),
                     models := AList.update n (Pipeline n tr) (models self)\<rparr>"
  from Cons.prems m have "train_loop lib tr te names ?self = Inr self'" by simp
  from Cons.IH [OF this] m show ?case by simp
qed

lemma map_of_tabulate:
  "n \<in> set ns \<Longrightarrow> map_of (map (\<lambda>n. (n, g n)) ns) n = Some (g n)"
  by (induction ns) auto

lemma train_loop_init:
  assumes "train_loop lib tr te candidates init = Inr self'"
  shows "(\<forall>n \<in> set candidates. \<exists>m. fit_and_score lib n tr te = Inr m)"
    and "model_performance self' = map (\<lambda>n. (n, projr (fit_and_score lib n tr te))) candidates"
    and "models self' = map (\<lambda>n. (n, Pipeline n tr)) candidates"
    and "best_model self' = None"
proof -
  note l = train_loop_Inr [OF assms]
  from l show "\<forall>n \<in> set candidates. \<exists>m. fit_and_score lib n tr te = Inr m" by blast
  from l have "model_performance self'
      = fold (\<lambda>n. AList.update n (projr (fit_and_score lib n tr te))) candidates []"
    by (simp add: init_def)
  then show "model_performance self' = map (\<lambda>n. (n, projr (fit_and_score lib n tr te))) candidates"
    by (simp add: candidates_def)
  from l have "models self' = fold (\<lambda>n. AList.update n (Pipeline n tr)) candidates []"
    by (simp add: init_def)
  then show "models self' = map (\<lambda>n. (n, Pipeline n tr)) candidates"
    by (simp add: candidates_def)
  from l show "best_model self' = None" by (simp add: init_def)
qed

lemma hd_insort_key:
  "hd (insort_key f x ys) = (if ys = [] then x else if f x \<le> f (hd ys) then x else hd ys)"
  by (cases ys) auto

lemma sort_key_Nil_iff: "sort_key f xs = [] \<longleftrightarrow> xs = []"
  by (metis length_sort length_0_conv)

lemma first_max_step:
  "fold (\<lambda>y best. if key best < key y then y else best) xs (b::'a)
     = (if xs = [] then b
        else (let m = fold (\<lambda>y best. if key best < key y then y else best) (tl xs) (hd xs)
              in if (key b :: real) < key m then m else b))"
proof (induction xs arbitrary: b)
  case Nil
  then show ?case by simp
next
  case (Cons y ys)
  let ?step = "\<lambda>y best. if key best < key y then y else best"
  show ?case
  proof (cases "ys = []")
    case True
    then show ?thesis by simp
  next
    case False
    define m' where "m' = fold ?step (tl ys) (hd ys)"
    from False have a: "fold ?step ys c = (if key c < key m' then m' else c)" for c
      using Cons.IH [of c] by (simp add: m'_def Let_def)
    show ?thesis by (auto simp: a Let_def)
  qed
qed

lemma py_max_key_is_first_sorted:
  "py_max_key key (x # xs) = Inr (hd (sorted_reverse key (x # xs)))"
proof -
  have "fold (\<lambda>y best. if key best < key y then y else best) xs x
          = hd (sort_key (\<lambda>x. - key x) (x # xs))"
  proof (induction xs arbitrary: x)
    case Nil
    then show ?case by simp
  next
    case (Cons y ys)
    have "fold (\<lambda>y best. if key best < key y then y else best) (y # ys) x
        = (let m = fold (\<lambda>y best. if key best < key y then y else best) ys y
           in if key x < key m then m else x)"
      by (subst first_max_step) simp
    also have "\<dots> = (let m = hd (sort_key (\<lambda>x. - key x) (y # ys))
           in if key x < key m then m else x)"
      by (simp only: Cons.IH)
    also have "\<dots> = hd (sort_key (\<lambda>x. - key x) (x # y # ys))"
      by (subst (2) sort_key_simps) (auto simp: hd_insort_key Let_def sort_key_Nil_iff simp del: sort_key_simps)
    finally show ?case .
  qed
  then show ?thesis by (simp add: sorted_reverse_def)
qed


lemma estimators_of_tabulate:
  assumes "set ns \<subseteq> set cs"
  shows "estimators_of (map (\<lambda>n. (n, g n)) cs) ns = Inr (map (\<lambda>n. (n, g n)) ns)"
  using assms by (induction ns) (auto simp: getitem_def map_of_tabulate)

lemma distinct_map_sort_key:
  "distinct (map g (sort_key f xs)) = distinct (map g xs)"
  by (simp add: distinct_map)

lemma top3_properties:
  fixes score :: "string \<Rightarrow> metrics"
  defines "perf \<equiv> map (\<lambda>n. (n, score n)) candidates"
  defines "top3 \<equiv> take 3 (sorted_reverse (\<lambda>x. r2 (snd x)) perf)"
  shows "length top3 = 3"
    and "distinct (map fst top3)"
    and "set (map fst top3) \<subseteq> set candidates"
    and "\<forall>name \<in> set (map fst top3). \<forall>other \<in> set candidates - set (map fst top3).
           r2 (score other) \<le> r2 (score name)"
proof -
  let ?f = "\<lambda>x. - r2 (snd x)"
  let ?l = "sort_key ?f perf"
  have top3: "top3 = take 3 ?l" by (simp add: top3_def sorted_reverse_def)
  have len: "length perf = 7" by (simp add: perf_def candidates_def)
  have fst_perf: "map fst perf = candidates" by (simp add: perf_def comp_def)
  have dist: "distinct (map fst ?l)"
    by (simp add: distinct_map_sort_key fst_perf candidates_def del: distinct_map)
  have mem: "snd p = score (fst p)" if "p \<in> set ?l" for p
    using that by (auto simp: perf_def)
  show "length top3 = 3" by (simp add: top3 len)
  show "distinct (map fst top3)"
    using dist by (simp add: top3 take_map [symmetric] del: distinct_map)
  show sub: "set (map fst top3) \<subseteq> set candidates"
  proof -
    have "set top3 \<subseteq> set perf" unfolding top3 using set_take_subset [of 3 ?l] by simp
    then have "fst ` set top3 \<subseteq> fst ` set perf" by blast
    also have "fst ` set perf = set candidates" using fst_perf by (metis set_map)
    finally show ?thesis by simp
  qed
  show "\<forall>name \<in> set (map fst top3). \<forall>other \<in> set candidates - set (map fst top3).
           r2 (score other) \<le> r2 (score name)"
  proof (intro ballI)
    fix name other
    assume n: "name \<in> set (map fst top3)" and o: "other \<in> set candidates - set (map fst top3)"
    have "sorted (map ?f (take 3 ?l @ drop 3 ?l))" by (simp add: sorted_sort_key del: sort_key_simps)
    then have ord: "\<forall>x \<in> set (take 3 ?l). \<forall>y \<in> set (drop 3 ?l). ?f x \<le> ?f y"
      by (simp add: sorted_append del: append_take_drop_id)
    from n obtain p where p: "p \<in> set (take 3 ?l)" "fst p = name" by (auto simp: top3)
    from p have sp: "snd p = score name" using mem [of p] in_set_takeD by fastforce
    from o have "(other, score other) \<in> set ?l" by (auto simp: perf_def)
    then have "(other, score other) \<in> set (take 3 ?l) \<union> set (drop 3 ?l)"
      by (metis append_take_drop_id set_append)
    moreover from o have "(other, score other) \<notin> set (take 3 ?l)"
      by (force simp: top3)
    ultimately have "(other, score other) \<in> set (drop 3 ?l)" by blast
    with ord p sp show "r2 (score other) \<le> r2 (score name)" by force
  qed
qed

lemma save_models_best:
  assumes "models self = map (\<lambda>n. (n, g n)) candidates"
  shows "map_of (save_models self now fs) ''models/perfect_crop_price_model.pkl''
           = Some (Pickle (best_model self))"
  by (simp add: save_models_def assms candidates_def lower_def lower_char_def update_conv'
      char_of_eq_iff Let_def)


lemma train_ensemble_models_init:
  assumes "train_ensemble_models lib tr te init = Inr (s1, best)"
  shows "\<forall>n \<in> set candidates. fit_and_score lib n tr te = Inr (projr (fit_and_score lib n tr te))"
    and "model_performance s1 = map (\<lambda>n. (n, projr (fit_and_score lib n tr te))) candidates"
    and "models s1 = map (\<lambda>n. (n, Pipeline n tr)) candidates"
    and "best = fst (hd (sorted_reverse (\<lambda>x. r2 (snd x)) (model_performance s1)))"
    and "best_model s1 = Some (Pipeline best tr)"
proof -
  from assms obtain s0 b m where
    loop: "train_loop lib tr te candidates init = Inr s0"
    and pmax: "py_max_key (\<lambda>x. r2 (snd x)) (model_performance s0) = Inr b"
    and get: "getitem (models s0) (fst b) = Inr m"
    and s1: "s1 = s0\<lparr>best_model := Some m\<rparr>"
    and best: "best = fst b"
    by (auto simp: train_ensemble_models_def Let_def split: sum.splits)
  note l = train_loop_init [OF loop]
  from l(1) show "\<forall>n \<in> set candidates. fit_and_score lib n tr te = Inr (projr (fit_and_score lib n tr te))"
    by force
  from l(2) s1
  show perf: "model_performance s1 = map (\<lambda>n. (n, projr (fit_and_score lib n tr te))) candidates"
    by simp
  from l(3) s1 show "models s1 = map (\<lambda>n. (n, Pipeline n tr)) candidates" by simp
  have "model_performance s0 \<noteq> []" using l(2) by (simp add: candidates_def)
  then obtain p ps where ps: "model_performance s0 = p # ps" by (cases "model_performance s0") auto
  from pmax have b: "b = hd (sorted_reverse (\<lambda>x. r2 (snd x)) (model_performance s0))"
    unfolding ps py_max_key_is_first_sorted by simp
  with best s1 show "best = fst (hd (sorted_reverse (\<lambda>x. r2 (snd x)) (model_performance s1)))"
    by simp
  have "b \<in> set (sorted_reverse (\<lambda>x. r2 (snd x)) (model_performance s0))"
    unfolding b by (rule hd_in_set) (simp add: sorted_reverse_def ps sort_key_Nil_iff del: sort_key_simps)
  then have "fst b \<in> set candidates"
    using l(2) by (auto simp: sorted_reverse_def)
  with get l(3) have "m = Pipeline (fst b) tr"
    by (simp add: getitem_def map_of_tabulate)
  with s1 best show "best_model s1 = Some (Pipeline best tr)" by simp
qed

lemma create_ensemble_predictor_top3:
  assumes "models s1 = map (\<lambda>n. (n, Pipeline n tr)) candidates"
    and "set (map fst (take 3 (sorted_reverse (\<lambda>x. r2 (snd x)) (model_performance s1))))
           \<subseteq> set candidates"
  shows "create_ensemble_predictor s1 tr'
           = Inr (VotingRegressor
                   (map (\<lambda>n. (n, Pipeline n tr))
                      (map fst (take 3 (sorted_reverse (\<lambda>x. r2 (snd x)) (model_performance s1)))))
                   tr')"
  unfolding create_ensemble_predictor_def Let_def assms(1)
  by (subst estimators_of_tabulate [OF assms(2)]) simp

text \<open>
  Claim C2. After a successful training run of a fresh predictor, \<open>best_model\<close>, the
  returned object and the file \<open>models/perfect_crop_price_model.pkl\<close> all hold one voting
  regressor, fitted on the training part of the split. Its estimators are the pipelines
  of exactly three distinct candidates, and no candidate left out has a higher R-squared
  on the test part than one that is in. The single best candidate by R-squared has been
  computed, and was \<open>best_model\<close> for a moment, but the served object is the ensemble, of
  which that candidate is the first estimator.
\<close>
theorem train_serves_top3_ensemble:
  assumes "train lib now file_path init fs = Inr (returned, self', fs')"
  shows "\<exists>df X_train X_test estimators s1 best.
       load_and_prepare_data lib file_path = Inr df
     \<and> train_test_split lib df \<lparr>test_size = 0.2, random_state = 42, stratify = Some ''crop''\<rparr>
         = Inr (X_train, X_test)
     \<and> best_model self' = Some (VotingRegressor estimators X_train)
     \<and> returned = best_model self'
     \<and> map_of fs' ''models/perfect_crop_price_model.pkl'' = Some (Pickle (best_model self'))
     \<and> length estimators = 3
     \<and> distinct (map fst estimators)
     \<and> set (map fst estimators) \<subseteq> set candidates
     \<and> estimators = map (\<lambda>name. (name, Pipeline name X_train)) (map fst estimators)
     \<and> (\<forall>name \<in> set (map fst estimators). \<forall>other \<in> set candidates - set (map fst estimators).
           \<exists>m m'. fit_and_score lib name X_train X_test = Inr m
                \<and> fit_and_score lib other X_train X_test = Inr m'
                \<and> map_of (model_performance self') name = Some m
                \<and> map_of (model_performance self') other = Some m'
                \<and> r2 m' \<le> r2 m)
     \<and> train_ensemble_models lib X_train X_test init = Inr (s1, best)
     \<and> best_model s1 = Some (Pipeline best X_train)
     \<and> best = fst (hd estimators)"
proof -
  from assms obtain df tr te s1 best ens where
    load: "load_and_prepare_data lib file_path = Inr df"
    and split: "train_test_split lib df \<lparr>test_size = 0.2, random_state = 42, stratify = Some ''crop''\<rparr>
                  = Inr (tr, te)"
    and tem: "train_ensemble_models lib tr te init = Inr (s1, best)"
    and cep: "create_ensemble_predictor s1 tr = Inr ens"
    and self': "self' = s1\<lparr>best_model := Some ens\<rparr>"
    and ret: "returned = Some ens"
    and fs': "fs' = save_models (s1\<lparr>best_model := Some ens\<rparr>) now fs"
    by (auto simp: train_def Let_def split: sum.splits prod.splits)
  define score where "score n = projr (fit_and_score lib n tr te)" for n
  define top3 where "top3 = take 3 (sorted_reverse (\<lambda>x. r2 (snd x)) (model_performance s1))"
  define est where "est = map (\<lambda>n. (n, Pipeline n tr)) (map fst top3)"
  note t = train_ensemble_models_init [OF tem]
  have perf: "model_performance s1 = map (\<lambda>n. (n, score n)) candidates"
    using t(2) by (simp add: score_def)
  note p = top3_properties [of score, folded perf, folded top3_def]
  have names: "map fst est = map fst top3" by (simp add: est_def comp_def)
  have ens: "ens = VotingRegressor est tr"
    using create_ensemble_predictor_top3 [OF t(3), of tr] p(3) cep
    by (simp add: top3_def est_def)
  have scored: "fit_and_score lib n tr te = Inr (score n) \<and> map_of (model_performance self') n = Some (score n)"
    if "n \<in> set candidates" for n
    using that t(1) by (simp add: self' perf score_def map_of_tabulate)
  have order: "\<forall>name \<in> set (map fst est). \<forall>other \<in> set candidates - set (map fst est).
           \<exists>m m'. fit_and_score lib name tr te = Inr m
                \<and> fit_and_score lib other tr te = Inr m'
                \<and> map_of (model_performance self') name = Some m
                \<and> map_of (model_performance self') other = Some m'
                \<and> r2 m' \<le> r2 m"
  proof (intro ballI)
    fix name other
    assume n: "name \<in> set (map fst est)" and o: "other \<in> set candidates - set (map fst est)"
    from n p(3) have "name \<in> set candidates" unfolding names by blast
    moreover from o have "other \<in> set candidates" by blast
    moreover from n o p(4) have "r2 (score other) \<le> r2 (score name)" unfolding names by blast
    ultimately show "\<exists>m m'. fit_and_score lib name tr te = Inr m
                \<and> fit_and_score lib other tr te = Inr m'
                \<and> map_of (model_performance self') name = Some m
                \<and> map_of (model_performance self') other = Some m'
                \<and> r2 m' \<le> r2 m"
      using scored by blast
  qed
  have "top3 \<noteq> []" using p(1) by auto
  then have hd_est: "fst (hd est) = fst (hd top3)" by (simp add: est_def hd_map)
  have "hd top3 = hd (sorted_reverse (\<lambda>x. r2 (snd x)) (model_performance s1))"
    by (simp add: top3_def)
  with t(4) hd_est have best: "best = fst (hd est)" by simp
  have saved: "map_of fs' ''models/perfect_crop_price_model.pkl'' = Some (Pickle (best_model self'))"
    unfolding fs' self' by (rule save_models_best [where g = "\<lambda>n. Pipeline n tr"]) (simp add: t(3))
  have shape: "est = map (\<lambda>name. (name, Pipeline name tr)) (map fst est)"
    unfolding names by (simp add: est_def)
  have bm: "best_model self' = Some (VotingRegressor est tr)"
    and ret': "returned = best_model self'"
    by (simp_all add: self' ens ret)
  have len: "length est = 3" and dist: "distinct (map fst est)"
    and sub: "set (map fst est) \<subseteq> set candidates"
    using p(1,2,3) unfolding names [symmetric] by (simp_all add: est_def)
  show ?thesis
    by (rule exI [of _ df], rule exI [of _ tr], rule exI [of _ te], rule exI [of _ est],
        rule exI [of _ s1], rule exI [of _ best])
       (intro conjI, (fact load split bm ret' saved len dist sub shape order tem t(5) best)+)
qed


theorem train_serves_top3_ensemble_witness:
  "\<exists>self' fs'.
      train sample_library ''2024-11-04T10:00:00'' ''data/processed/crop_prices.csv'' init []
        = Inr (Some sample_ensemble, self', fs')
    \<and> best_model self' = Some sample_ensemble
    \<and> map_of fs' ''models/perfect_crop_price_model.pkl'' = Some (Pickle (Some sample_ensemble))"
proof -
  have "\<exists>self' fs'.
      train sample_library ''2024-11-04T10:00:00'' ''data/processed/crop_prices.csv'' init []
        = Inr (Some sample_ensemble, self', fs')"
    by (simp add: train_def train_ensemble_models_def create_ensemble_predictor_def
        sample_library_def sample_ensemble_def candidates_def init_def getitem_def
        sorted_reverse_def Let_def)
  then obtain self' fs' where
    r: "train sample_library ''2024-11-04T10:00:00'' ''data/processed/crop_prices.csv'' init []
          = Inr (Some sample_ensemble, self', fs')"
    by (elim exE)
  from train_serves_top3_ensemble [OF r]
  have "best_model self' = Some sample_ensemble"
    and "map_of fs' ''models/perfect_crop_price_model.pkl'' = Some (Pickle (Some sample_ensemble))"
    by auto
  with r show ?thesis by (intro exI [of _ self'] exI [of _ fs'] conjI)
qed

end
